theory Spec2Isabelle
  imports Main
begin

section \<open>The validating input field component\<close>

text \<open>
  A shallow embedding of the controller \<^verbatim>\<open>IgzValidatingInputFieldController\<close> of
  \<^verbatim>\<open>validating-input-field.component.js\<close>. The controller object \<^verbatim>\<open>ctrl\<close>, the variables
  of its closure (\<^verbatim>\<open>lastValidValue\<close>, \<^verbatim>\<open>ngModel\<close>) and the part of the environment it acts
  on (rule objects, document listeners, scheduled timeouts, calls to functions of the
  host) form one record, and every function of the controller is a function on that
  record.

  Conventions of the embedding:
  \<^item> an optional binding (\<^verbatim>\<open><?\<close>, \<^verbatim>\<open>@?\<close>) is an \<open>option\<close>; \<open>None\<close> is JavaScript's
    \<^verbatim>\<open>undefined\<close> (or \<^verbatim>\<open>null\<close>);
  \<^item> strings are lists of \<open>char\<close>, their length is the length of the list;
  \<^item> rule objects live in a store, a list indexed by references, because the
    controller writes \<^verbatim>\<open>rule.isValid\<close> into objects that a caller may share;
  \<^item> a rule's matcher is a pure total function: a predicate that throws, or returns
    something other than a boolean, and a regular expression with the stateful
    \<^verbatim>\<open>g\<close> or \<^verbatim>\<open>y\<close> flag are outside the model;
  \<^item> calls that leave the controller (callbacks of the host, evaluations of rule
    matchers, \<^verbatim>\<open>focus()\<close> on an element) are appended to a trace.
\<close>

subsection \<open>Data model\<close>

type_synonym ref = nat

text \<open>The enclosing form: only its \<^verbatim>\<open>$submitted\<close> flag is read by the controller.\<close>

record formController =
  submitted :: bool

text \<open>
  \<^verbatim>\<open>validationRules[].pattern\<close> is a function invoked with the value, the field name and
  the form, or a regular expression, of which only \<^verbatim>\<open>test\<close> is used.
\<close>

datatype pattern =
  Predicate "string \<Rightarrow> string option \<Rightarrow> formController option \<Rightarrow> bool"
| RegExp "string \<Rightarrow> bool"

record rule =
  name :: "string option"
  label :: string
  pattern :: pattern
  isValid :: "bool option"

datatype element = InputField | Descendant nat | Outside nat

record event =
  target :: element
  keyCode :: nat

datatype effect =
  UpdateDataCallback string "string option"
| ItemBlurCallback event string "string option"
| ItemFocusCallback event string "string option"
| EnterCallback
| PatternCalled ref string "string option" "formController option"
| PatternTested ref string
| Focus element

text \<open>Callbacks handed to \<^verbatim>\<open>$timeout\<close>, run on a later tick.\<close>

datatype task = FocusField | PositionPopUp | Enter

text \<open>
  The \<^verbatim>\<open>ngModelController\<close> of the wrapped field. \<open>templateValidators\<close> stands for the
  validators that the directives of the template register next to the controller's own
  \<^verbatim>\<open>validationRules\<close> validator; the template is not part of the source, so they are a
  parameter.
\<close>

record ngModelController =
  viewValue :: string
  lastCommittedViewValue :: string
  rawModelValue :: string
  dirty :: bool
  valid :: bool
  invalid :: bool
  templateValidators :: "string \<Rightarrow> bool"

record tooltip =
  text_tt :: string
  placement :: string
  duration :: string

datatype debounce = Delay nat | PerEvent "nat option" "nat option"

record modelOptions =
  updateOn :: "string option"
  debounce :: "debounce option"
  allowInvalid :: "bool option"

record component =
  autoComplete :: "string option"
  bordersMode :: "string option"
  fieldType :: "string option"
  formObject :: "formController option"
  hideCounter :: "bool option"
  inputModelOptions :: "modelOptions option"
  inputName :: "string option"
  isClearIcon :: "bool option"
  isDataRevert :: "bool option"
  isDisabled :: "bool option"
  isFocused :: "bool option"
  onlyValidCharacters :: "bool option"
  readOnly :: "bool option"
  spellcheck :: "bool option"
  tabindex :: "string option"
  tooltip :: "tooltip option"
  trim :: "bool option"
  updateDataField :: "string option"
  validationIsRequired :: "bool option"
  validationMaxLength :: "string option"
  validationRules :: "ref list option"
  bordersModeClass :: string
  data :: string
  inputFocused :: bool
  inputIsTouched :: bool
  isValidationPopUpShown :: bool
  preventInputBlur :: bool
  selectedFieldType :: string
  showPopUpOnTop :: bool
  lastValidValue :: string
  ngModel :: "ngModelController option"
  heap :: "rule list"
  documentClick :: nat
  windowAnimationend :: nat
  timeouts :: "task list"
  trace :: "effect list"

text \<open>
  The state the constructor leaves: the assignments at the top of the controller, every
  binding still undefined, no rule object, no listener, nothing scheduled or called.
\<close>

definition controller :: component where
  "controller =
     \<lparr>autoComplete = None, bordersMode = None, fieldType = None, formObject = None,
      hideCounter = None, inputModelOptions = None, inputName = None, isClearIcon = None,
      isDataRevert = None, isDisabled = None, isFocused = None, onlyValidCharacters = None,
      readOnly = None, spellcheck = None, tabindex = None, tooltip = None, trim = None,
      updateDataField = None, validationIsRequired = None, validationMaxLength = None,
      validationRules = None,
      bordersModeClass = '''', data = '''', inputFocused = False, inputIsTouched = False,
      isValidationPopUpShown = False, preventInputBlur = False,
      selectedFieldType = ''input'', showPopUpOnTop = False,
      lastValidValue = '''', ngModel = None,
      heap = [], documentClick = 0, windowAnimationend = 0, timeouts = [], trace = []\<rparr>"

subsection \<open>JavaScript and lodash helpers\<close>

text \<open>Truthiness of an optional boolean: \<^verbatim>\<open>undefined\<close> and \<^verbatim>\<open>false\<close> are falsy.\<close>

fun truthy :: "bool option \<Rightarrow> bool" where
  "truthy None = False"
| "truthy (Some b) = b"

text \<open>\<^verbatim>\<open>lodash.defaultTo(value, default)\<close>.\<close>

fun defaultTo :: "'a option \<Rightarrow> 'a \<Rightarrow> 'a" where
  "defaultTo None d = d"
| "defaultTo (Some v) d = v"

text \<open>
  \<^verbatim>\<open>lodash.forEach\<close>, \<^verbatim>\<open>lodash.some\<close> and \<^verbatim>\<open>lodash.isEmpty\<close> treat an undefined collection as an
  empty one.
\<close>

fun collection :: "'a list option \<Rightarrow> 'a list" where
  "collection None = []"
| "collection (Some xs) = xs"

subsection \<open>The validator\<close>

text \<open>
  \<^verbatim>\<open>lodash.isFunction(rule.pattern) ? rule.pattern(value, ctrl.inputName, ctrl.formObject)
                                  : rule.pattern.test(value)\<close>
  and the call it makes.
\<close>

fun matches :: "pattern \<Rightarrow> string \<Rightarrow> string option \<Rightarrow> formController option \<Rightarrow> bool" where
  "matches (Predicate f) v n fo = f v n fo"
| "matches (RegExp test) v n fo = test v"

fun evaluation :: "ref \<Rightarrow> pattern \<Rightarrow> string \<Rightarrow> string option \<Rightarrow> formController option \<Rightarrow> effect" where
  "evaluation r (Predicate f) v n fo = PatternCalled r v n fo"
| "evaluation r (RegExp test) v n fo = PatternTested r v"

text \<open>The assignment \<^verbatim>\<open>rule.isValid = b\<close> to the rule object at \<open>r\<close> of a store.\<close>

definition assignIsValid :: "bool \<Rightarrow> ref \<Rightarrow> rule list \<Rightarrow> rule list" where
  "assignIsValid b r h = h[r := (h ! r)\<lparr>isValid := Some b\<rparr>]"

text \<open>The body of the loop of \<^verbatim>\<open>checkPatternsValidity\<close>, for the rule object at \<open>r\<close>.\<close>

definition checkRule :: "string \<Rightarrow> ref \<Rightarrow> component \<Rightarrow> component" where
  "checkRule v r s =
     (let rule = heap s ! r in
      s\<lparr>heap := assignIsValid (matches (pattern rule) v (inputName s) (formObject s)) r (heap s),
        trace := trace s @ [evaluation r (pattern rule) v (inputName s) (formObject s)]\<rparr>)"

text \<open>\<^verbatim>\<open>lodash.some(ctrl.validationRules, ['isValid', false])\<close>: strict equality with \<^verbatim>\<open>false\<close>.\<close>

definition hasInvalidRule :: "component \<Rightarrow> bool" where
  "hasInvalidRule s =
     list_ex (\<lambda>r. isValid (heap s ! r) = Some False) (collection (validationRules s))"

definition checkPatternsValidity :: "string \<Rightarrow> component \<Rightarrow> bool \<times> component" where
  "checkPatternsValidity v s =
     (let s' = fold (checkRule v) (collection (validationRules s)) s
      in (\<not> hasInvalidRule s', s'))"

definition resetRule :: "ref \<Rightarrow> component \<Rightarrow> component" where
  "resetRule r s = s\<lparr>heap := assignIsValid True r (heap s)\<rparr>"

definition resetPatternsValidity :: "component \<Rightarrow> component" where
  "resetPatternsValidity s = fold resetRule (collection (validationRules s)) s"

text \<open>
  \<^verbatim>\<open>ngModel.$validators.validationRules\<close>, registered in \<^verbatim>\<open>postLink\<close>. It looks at
  \<^verbatim>\<open>ctrl.data\<close> for emptiness and checks the rules against its argument.
\<close>

definition validationRulesValidator :: "string \<Rightarrow> component \<Rightarrow> bool \<times> component" where
  "validationRulesValidator modelValue s =
     (if \<not> truthy (validationIsRequired s) \<and> data s = ''''
      then (True, resetPatternsValidity s)
      else checkPatternsValidity modelValue s)"

text \<open>
  The evaluation of a rule in the words of the specification, written without the
  function \<open>matches\<close> of the code: a rule whose matcher is a predicate function is called
  with the value, the field name and the form; a rule whose matcher is a pattern is
  tested against the value. \<open>ruleHolds\<close> is the result of that evaluation for the rule
  object at \<open>r\<close>, \<open>ruleCall\<close> the call it consists of.
\<close>

definition ruleHolds :: "component \<Rightarrow> string \<Rightarrow> ref \<Rightarrow> bool" where
  "ruleHolds s v r =
     (case pattern (heap s ! r) of
        Predicate f \<Rightarrow> f v (inputName s) (formObject s)
      | RegExp test \<Rightarrow> test v)"


text \<open>Every reference of the rule list denotes an object of the store.\<close>

definition rulesAllocated :: "component \<Rightarrow> bool" where
  "rulesAllocated s = list_all (\<lambda>r. r < length (heap s)) (collection (validationRules s))"

subsection \<open>The remaining-character counter\<close>

text \<open>
  JavaScript numbers, as far as the counter needs them: \<^verbatim>\<open>NaN\<close> or an integer. The model
  is exact for integers of magnitude up to \<open>2^53 - 1\<close>, where a double holds every
  integer and \<^verbatim>\<open>toString\<close> prints plain decimal digits.
\<close>

datatype number = NaN | Num int

definition MAX_SAFE_INTEGER :: int where
  "MAX_SAFE_INTEGER = 2 ^ 53 - 1"

definition isWhiteSpace :: "char \<Rightarrow> bool" where
  "isWhiteSpace c = (c \<in> set [CHR 0x09, CHR 0x0A, CHR 0x0B, CHR 0x0C, CHR 0x0D, CHR 0x20, CHR 0xA0])"

definition digitValue :: "nat \<Rightarrow> char \<Rightarrow> nat option" where
  "digitValue radix c =
     (case map_of (zip ''0123456789abcdef'' [0 ..< 16] @ zip ''ABCDEF'' [10 ..< 16]) c of
        None \<Rightarrow> None
      | Some d \<Rightarrow> if d < radix then Some d else None)"

text \<open>The value of a run of digits; \<^verbatim>\<open>parseInt\<close> applies it to digits of the radix only.\<close>

definition mathInt :: "nat \<Rightarrow> string \<Rightarrow> nat" where
  "mathInt radix z = foldl (\<lambda>acc c. acc * radix + the (digitValue radix c)) 0 z"

text \<open>
  \<^verbatim>\<open>Number.parseInt(string)\<close> with no radix: the argument is converted to a string
  (\<^verbatim>\<open>undefined\<close> becomes the text \<^verbatim>\<open>undefined\<close>, which has no digit), leading white space
  is skipped, a sign is read, a prefix \<^verbatim>\<open>0x\<close> or \<^verbatim>\<open>0X\<close> selects radix 16, and the longest
  run of digits is the value; without a digit the result is \<^verbatim>\<open>NaN\<close>. \<open>isWhiteSpace\<close> holds
  the white space characters below U+0100.
\<close>

definition parseInt :: "string option \<Rightarrow> number" where
  "parseInt string =
     (case string of
        None \<Rightarrow> NaN
      | Some str \<Rightarrow>
          (let s1 = dropWhile isWhiteSpace str;
               negative = (take 1 s1 = ''-'');
               s2 = (if take 1 s1 = ''-'' \<or> take 1 s1 = ''+'' then drop 1 s1 else s1);
               hex = (take 2 s2 = ''0x'' \<or> take 2 s2 = ''0X'');
               radix = (if hex then 16 else 10);
               s3 = (if hex then drop 2 s2 else s2);
               z = takeWhile (\<lambda>c. digitValue radix c \<noteq> None) s3
           in if z = [] then NaN
              else if negative then Num (- int (mathInt radix z))
              else Num (int (mathInt radix z))))"

fun digitsOf :: "nat \<Rightarrow> string" where
  "digitsOf n =
     (if n < 10 then [''0123456789'' ! n]
      else digitsOf (n div 10) @ [''0123456789'' ! (n mod 10)])"

declare digitsOf.simps [simp del]

fun toString :: "number \<Rightarrow> string" where
  "toString NaN = ''NaN''"
| "toString (Num i) = (if i < 0 then CHR ''-'' # digitsOf (nat (- i)) else digitsOf (nat i))"

text \<open>\<^verbatim>\<open>x <= 0\<close> and \<^verbatim>\<open>x - y\<close> on numbers: a comparison with \<^verbatim>\<open>NaN\<close> is false.\<close>

fun lessEqZero :: "number \<Rightarrow> bool" where
  "lessEqZero NaN = False"
| "lessEqZero (Num i) = (i \<le> 0)"

fun subtract :: "number \<Rightarrow> int \<Rightarrow> number" where
  "subtract NaN j = NaN"
| "subtract (Num i) j = Num (i - j)"

text \<open>\<open>None\<close> is the \<^verbatim>\<open>null\<close> that the function returns.\<close>

definition getRemainingCharactersCount :: "component \<Rightarrow> string option" where
  "getRemainingCharactersCount s =
     (let maxLength = parseInt (validationMaxLength s);
          currentLength = int (length (data s))
      in if lessEqZero maxLength then None
         else Some (toString (subtract maxLength currentLength)))"

definition isCounterVisible :: "component \<Rightarrow> bool" where
  "isCounterVisible s =
     (\<not> truthy (isDisabled s) \<and> \<not> truthy (onlyValidCharacters s) \<and> \<not> truthy (hideCounter s) \<and>
      \<not> truthy (readOnly s) \<and> validationMaxLength s \<noteq> None)"

subsection \<open>Initialization\<close>

definition BORDER_MODES :: "string list" where
  "BORDER_MODES = [''always'', ''hover'', ''focus'']"

definition FIELD_TYPES :: "string list" where
  "FIELD_TYPES = [''input'', ''password'', ''textarea'', ''schedule'']"

definition BORDERS_CLASS_BASE :: string where
  "BORDERS_CLASS_BASE = ''borders-''"

definition defaultBorderMode :: string where
  "defaultBorderMode = ''always''"

text \<open>\<^verbatim>\<open>lodash.defaults\<close> assigns a property only where it is undefined.\<close>

fun orDefault :: "'a option \<Rightarrow> 'a \<Rightarrow> 'a option" where
  "orDefault None d = Some d"
| "orDefault (Some v) d = Some v"

text \<open>
  \<^verbatim>\<open>lodash.defaultsDeep(ctrl.inputModelOptions, defaultInputModelOptions)\<close>: the nested
  \<^verbatim>\<open>debounce\<close> object is completed key by key, a numeric \<^verbatim>\<open>debounce\<close> is kept.
\<close>

fun debounceDefaults :: "debounce option \<Rightarrow> debounce" where
  "debounceDefaults None = PerEvent (Some 250) (Some 0)"
| "debounceDefaults (Some (Delay n)) = Delay n"
| "debounceDefaults (Some (PerEvent d a)) = PerEvent (orDefault d 250) (orDefault a 0)"

definition defaultsDeep :: "modelOptions \<Rightarrow> modelOptions" where
  "defaultsDeep opts =
     \<lparr>updateOn = orDefault (updateOn opts) ''default blur'',
      debounce = Some (debounceDefaults (debounce opts)),
      allowInvalid = orDefault (allowInvalid opts) True\<rparr>"

text \<open>
  \<^verbatim>\<open>onInit\<close>. The callbacks that default to \<^verbatim>\<open>angular.noop\<close> are not fields of the
  model: a call to a callback is recorded in the trace whether or not the host bound it.
\<close>

definition onInit :: "component \<Rightarrow> component" where
  "onInit s =
     (let s1 = s\<lparr>autoComplete := orDefault (autoComplete s) ''off'',
                 bordersMode := orDefault (bordersMode s) defaultBorderMode,
                 fieldType := orDefault (fieldType s) (selectedFieldType s),
                 hideCounter := orDefault (hideCounter s) False,
                 inputModelOptions := orDefault (inputModelOptions s)
                    \<lparr>updateOn = None, debounce = None, allowInvalid = None\<rparr>,
                 isClearIcon := orDefault (isClearIcon s) False,
                 isDataRevert := orDefault (isDataRevert s) False,
                 isDisabled := orDefault (isDisabled s) False,
                 onlyValidCharacters := orDefault (onlyValidCharacters s) False,
                 readOnly := orDefault (readOnly s) False,
                 spellcheck := orDefault (spellcheck s) True,
                 tabindex := orDefault (tabindex s) ''0'',
                 tooltip := orDefault (tooltip s)
                    \<lparr>text_tt = '''', placement = ''auto'', duration = ''200''\<rparr>,
                 trim := orDefault (trim s) True,
                 updateDataField := (case updateDataField s of None \<Rightarrow> inputName s | Some f \<Rightarrow> Some f),
                 validationIsRequired := orDefault (validationIsRequired s) False\<rparr>;
          s2 = (case fieldType s1 of
                  None \<Rightarrow> s1
                | Some t \<Rightarrow> if t \<in> set FIELD_TYPES then s1\<lparr>selectedFieldType := t\<rparr> else s1);
          s3 = (case bordersMode s2 of
                  None \<Rightarrow> s2\<lparr>bordersMode := Some defaultBorderMode\<rparr>
                | Some b \<Rightarrow> if b \<notin> set BORDER_MODES then s2\<lparr>bordersMode := Some defaultBorderMode\<rparr> else s2);
          s4 = s3\<lparr>bordersModeClass := BORDERS_CLASS_BASE @ defaultTo (bordersMode s3) ''undefined''\<rparr>
      in s4\<lparr>inputModelOptions := map_option defaultsDeep (inputModelOptions s4)\<rparr>)"

subsection \<open>The model controller of the field\<close>

text \<open>
  \<^verbatim>\<open>ngModelController\<close> belongs to the framework, not to this repository. Its operations
  are written down here from the framework's documentation and from the comment in
  \<^verbatim>\<open>onBlur\<close> (committing the view value updates the model value, validates the field and
  triggers \<^verbatim>\<open>ngChange\<close>), under the options that \<^verbatim>\<open>onInit\<close> sets by default
  (\<^verbatim>\<open>allowInvalid: true\<close>) and with no parser, formatter or asynchronous validator.
  Running the validators calls the controller's validator on the given model value and
  sets \<^verbatim>\<open>$valid\<close> and \<^verbatim>\<open>$invalid\<close>. The theorems about \<^verbatim>\<open>onChange\<close> and \<^verbatim>\<open>onBlur\<close> relate
  the state after the handler to the state before it for the operations as written here.
\<close>

definition runValidators :: "ngModelController \<Rightarrow> string \<Rightarrow> component \<Rightarrow> component" where
  "runValidators m modelValue s =
     (let (ok, s') = validationRulesValidator modelValue s;
          allValid = (templateValidators m modelValue \<and> ok)
      in s'\<lparr>ngModel := Some (m\<lparr>valid := allValid, invalid := \<not> allValid\<rparr>)\<rparr>)"

text \<open>\<^verbatim>\<open>ngModel.$validate()\<close>: the validators run on the current model value.\<close>

definition validate :: "ngModelController \<Rightarrow> component \<Rightarrow> component" where
  "validate m s = runValidators m (rawModelValue m) s"

text \<open>\<^verbatim>\<open>ngModel.$valid\<close>, \<^verbatim>\<open>ngModel.$invalid\<close>, \<^verbatim>\<open>lodash.get(ngModel, '$dirty')\<close>: false on \<^verbatim>\<open>null\<close>.\<close>

fun get :: "'a option \<Rightarrow> ('a \<Rightarrow> bool) \<Rightarrow> bool" where
  "get None f = False"
| "get (Some x) f = f x"

subsection \<open>Handlers\<close>

datatype error = TypeError

text \<open>
  A handler returns, or throws and leaves the state as far as it had changed it.
  \<^verbatim>\<open>ngModel\<close> is \<^verbatim>\<open>null\<close> until the callback of \<^verbatim>\<open>postLink\<close> has run: a method call on it throws.
\<close>

datatype 'a completion = Returns 'a | Throws error 'a

fun stateOf :: "'a completion \<Rightarrow> 'a" where
  "stateOf (Returns s) = s"
| "stateOf (Throws e s) = s"

fun returned :: "'a completion \<Rightarrow> bool" where
  "returned (Returns s) = True"
| "returned (Throws e s) = False"

definition onChange :: "component \<Rightarrow> component completion" where
  "onChange s =
     (case ngModel s of
        None \<Rightarrow> Throws TypeError s
      | Some m \<Rightarrow>
          (let s1 = validate m s
           in if truthy (isDataRevert s1)
              then (if get (ngModel s1) valid then Returns (s1\<lparr>lastValidValue := data s1\<rparr>)
                    else Returns s1)
              else Returns (s1\<lparr>trace := trace s1 @ [UpdateDataCallback (data s1) (updateDataField s1)]\<rparr>)))"

text \<open>
  Modelled from the spec: the template of the component is missing from the source. As
  the specification and the comments of \<^verbatim>\<open>onBlur\<close> and \<^verbatim>\<open>onChange\<close> say, the wrapped field is
  bound to the current value \<^verbatim>\<open>ctrl.data\<close>, and a change of the model value of the field runs
  \<^verbatim>\<open>ctrl.onChange()\<close>.

  \<^verbatim>\<open>ngModel.$commitViewValue()\<close>: nothing happens unless a view value is pending; otherwise
  the field becomes dirty, the view value becomes the model value, a changed model value
  is written to \<^verbatim>\<open>ctrl.data\<close> and announced to \<^verbatim>\<open>ngChange\<close>, and the validators run.
\<close>

definition commitViewValue :: "ngModelController \<Rightarrow> component \<Rightarrow> component" where
  "commitViewValue m s =
     (if lastCommittedViewValue m = viewValue m then s
      else
        (let m1 = m\<lparr>lastCommittedViewValue := viewValue m, dirty := True, rawModelValue := viewValue m\<rparr>;
             s1 = s\<lparr>ngModel := Some m1\<rparr>;
             s2 = (if viewValue m \<noteq> rawModelValue m
                   then stateOf (onChange (s1\<lparr>data := viewValue m\<rparr>))
                   else s1)
         in runValidators (defaultTo (ngModel s2) m1) (viewValue m) s2))"

text \<open>\<^verbatim>\<open>ngModel.$setViewValue(value)\<close>, the commit being debounced.\<close>

definition setViewValue :: "string \<Rightarrow> ngModelController \<Rightarrow> ngModelController" where
  "setViewValue v m = m\<lparr>viewValue := v\<rparr>"

text \<open>
  The watch of the model controller, run by a digest: a value of \<^verbatim>\<open>ctrl.data\<close> that the
  program has changed becomes the model value and the view value, and the validators
  run. A change made by the program leaves the field pristine.
\<close>

definition ngModelWatch :: "component \<Rightarrow> component" where
  "ngModelWatch s =
     (case ngModel s of
        None \<Rightarrow> s
      | Some m \<Rightarrow>
          if data s = rawModelValue m then s
          else if viewValue m = data s then s\<lparr>ngModel := Some (m\<lparr>rawModelValue := data s\<rparr>)\<rparr>
          else runValidators
                 (m\<lparr>rawModelValue := data s, viewValue := data s, lastCommittedViewValue := data s\<rparr>)
                 (data s) s)"

text \<open>
  The callback that \<^verbatim>\<open>postLink\<close> hands to \<^verbatim>\<open>$applyAsync\<close>; \<open>m\<close> is what
  \<^verbatim>\<open>fieldElement.controller('ngModel')\<close> returns.
\<close>

definition postLink :: "ngModelController \<Rightarrow> component \<Rightarrow> component" where
  "postLink m s =
     (let s1 = validate m (s\<lparr>ngModel := Some m\<rparr>)
      in if truthy (isFocused s1) then s1\<lparr>timeouts := timeouts s1 @ [FocusField]\<rparr> else s1)"

text \<open>\<^verbatim>\<open>lodash.isEmpty(ctrl.validationRules)\<close>.\<close>

definition isEmpty :: "'a list option \<Rightarrow> bool" where
  "isEmpty xs = (collection xs = [])"

definition isFieldInvalid :: "component \<Rightarrow> bool" where
  "isFieldInvalid s =
     (if truthy (onlyValidCharacters s) then False
      else (get (formObject s) submitted \<or> get (ngModel s) dirty) \<and> get (ngModel s) invalid)"

text \<open>\<^verbatim>\<open>setOrRevertInputValue\<close> is called by \<^verbatim>\<open>onBlur\<close> only, after \<^verbatim>\<open>ngModel\<close> has been used.\<close>

definition setOrRevertInputValue :: "component \<Rightarrow> component" where
  "setOrRevertInputValue s =
     (if get (ngModel s) invalid then s\<lparr>data := lastValidValue s\<rparr>
      else s\<lparr>trace := trace s @ [UpdateDataCallback (data s) (updateDataField s)]\<rparr>)"

definition onBlur :: "event \<Rightarrow> component \<Rightarrow> component completion" where
  "onBlur e s =
     (if preventInputBlur s
      then Returns (s\<lparr>preventInputBlur := False, inputFocused := True,
                      trace := trace s @ [Focus (target e)]\<rparr>)
      else
        (let s1 = s\<lparr>inputFocused := False\<rparr>
         in case ngModel s1 of
              None \<Rightarrow> Throws TypeError s1
            | Some m \<Rightarrow>
                (let s2 = commitViewValue m s1;
                     s3 = (if truthy (isDataRevert s2) then setOrRevertInputValue s2 else s2)
                 in Returns (s3\<lparr>trace := trace s3 @ [ItemBlurCallback e (data s3) (inputName s3)]\<rparr>))))"

definition onFocus :: "event \<Rightarrow> component \<Rightarrow> component" where
  "onFocus e s =
     (let s1 = s\<lparr>inputFocused := True\<rparr>;
          s2 = (if \<not> isEmpty (validationRules s1) then s1\<lparr>inputIsTouched := True\<rparr> else s1)
      in s2\<lparr>trace := trace s2 @ [ItemFocusCallback e (data s2) (inputName s2)]\<rparr>)"

text \<open>\<open>ENTER\<close> is \<^verbatim>\<open>EventHelperService.ENTER\<close>, a constant of another module.\<close>

definition onKeyDown :: "nat \<Rightarrow> event \<Rightarrow> component \<Rightarrow> component" where
  "onKeyDown ENTER e s =
     (if keyCode e = ENTER then s\<lparr>timeouts := timeouts s @ [Enter]\<rparr> else s)"

definition clearInputField :: "component \<Rightarrow> component completion" where
  "clearInputField s =
     (if selectedFieldType s = ''schedule''
      then (case ngModel s of
              None \<Rightarrow> Throws TypeError s
            | Some m \<Rightarrow>
                (let m1 = setViewValue '''' m
                 in Returns (commitViewValue m1 (s\<lparr>ngModel := Some m1\<rparr>))))
      else onChange (s\<lparr>data := ''''\<rparr>))"

subsection \<open>The rule pop-over and the document listener\<close>

text \<open>
  \<open>documentClick\<close> counts the registrations of \<^verbatim>\<open>handleDocumentClick\<close> for the \<^verbatim>\<open>click\<close>
  event of the document: \<^verbatim>\<open>on\<close> adds one, \<^verbatim>\<open>off\<close> with the handler removes all of them.
\<close>

definition toggleValidationPopUp :: "component \<Rightarrow> component" where
  "toggleValidationPopUp s =
     (if \<not> isEmpty (validationRules s)
      then
        (let s1 = s\<lparr>isValidationPopUpShown := \<not> isValidationPopUpShown s\<rparr>
         in if isValidationPopUpShown s1
            then s1\<lparr>documentClick := Suc (documentClick s1), showPopUpOnTop := False,
                    timeouts := timeouts s1 @ [PositionPopUp]\<rparr>
            else s1\<lparr>documentClick := 0\<rparr>)
      else s)"

text \<open>\<^verbatim>\<open>$element.find(event.target).length === 0\<close>: the target is no descendant of the component.\<close>

fun outsideComponent :: "element \<Rightarrow> bool" where
  "outsideComponent (Outside n) = True"
| "outsideComponent InputField = False"
| "outsideComponent (Descendant n) = False"

definition handleDocumentClick :: "event \<Rightarrow> component \<Rightarrow> component" where
  "handleDocumentClick e s =
     (let s1 = (if outsideComponent (target e) then s\<lparr>isValidationPopUpShown := False\<rparr> else s)
      in if \<not> isValidationPopUpShown s1 then s1\<lparr>documentClick := 0\<rparr> else s1)"

definition onDestroy :: "component \<Rightarrow> component" where
  "onDestroy s = s\<lparr>windowAnimationend := 0, documentClick := 0\<rparr>"

subsection \<open>Scheduled callbacks\<close>

record geometry =
  innerHeight :: int
  offsetTop :: int
  outerHeight :: int

text \<open>
  The callbacks given to \<^verbatim>\<open>$timeout\<close>. \<^verbatim>\<open>fieldElement\<close> is the plain object \<^verbatim>\<open>{}\<close> until the
  callback of \<^verbatim>\<open>postLink\<close> assigns it together with \<^verbatim>\<open>ngModel\<close>; \<^verbatim>\<open>focus()\<close> on it throws.
\<close>

fun runTask :: "geometry \<Rightarrow> task \<Rightarrow> component \<Rightarrow> component completion" where
  "runTask g FocusField s =
     (if ngModel s = None then Throws TypeError s
      else Returns (s\<lparr>trace := trace s @ [Focus InputField]\<rparr>))"
| "runTask g PositionPopUp s =
     (if ngModel s = None then Throws TypeError s
      else Returns (s\<lparr>trace := trace s @ [Focus InputField], inputFocused := True,
                      showPopUpOnTop := (innerHeight g - offsetTop g - outerHeight g < 0)\<rparr>))"
| "runTask g Enter s = Returns (s\<lparr>trace := trace s @ [EnterCallback]\<rparr>)"

definition timeout :: "nat \<Rightarrow> geometry \<Rightarrow> component \<Rightarrow> component completion" where
  "timeout i g s =
     (if i < length (timeouts s)
      then runTask g (timeouts s ! i) (s\<lparr>timeouts := take i (timeouts s) @ drop (Suc i) (timeouts s)\<rparr>)
      else Returns s)"

subsection \<open>Changes of the bindings\<close>

text \<open>
  \<^verbatim>\<open>angular.copy\<close> of a list of rule objects: every object is copied into a new object of
  the store, and an object that occurs twice is copied once. \<open>seen\<close> pairs the objects
  copied so far with their copies.
\<close>

fun copyRules :: "rule list \<Rightarrow> (ref \<times> ref) list \<Rightarrow> ref list \<Rightarrow> rule list \<times> ref list" where
  "copyRules h seen [] = (h, [])"
| "copyRules h seen (r # rs) =
     (case map_of seen r of
        Some r' \<Rightarrow> (let (h', rs') = copyRules h seen rs in (h', r' # rs'))
      | None \<Rightarrow>
          (let r' = length h;
               (h', rs') = copyRules (h @ [h ! r]) ((r, r') # seen) rs
           in (h', r' # rs')))"

definition copy :: "rule list \<Rightarrow> ref list \<Rightarrow> rule list \<times> ref list" where
  "copy h rs = copyRules h [] rs"

text \<open>The \<^verbatim>\<open>changes\<close> object of \<^verbatim>\<open>$onChanges\<close>: a key is present for a binding that changed.\<close>

record 'a simpleChange =
  currentValue :: "'a option"
  isFirstChange :: bool

record changes =
  changes_inputValue :: "string simpleChange option"
  changes_isFocused :: "bool simpleChange option"
  changes_validationRules :: "ref list simpleChange option"

definition onChanges :: "changes \<Rightarrow> component \<Rightarrow> component completion" where
  "onChanges c s =
     (let s1 = (case changes_inputValue c of
                  None \<Rightarrow> s
                | Some ch \<Rightarrow> s\<lparr>data := defaultTo (currentValue ch) '''',
                                lastValidValue := defaultTo (currentValue ch) ''''\<rparr>);
          s2 = (case changes_isFocused c of
                  None \<Rightarrow> s1
                | Some ch \<Rightarrow>
                    (let s' = s1\<lparr>inputFocused := defaultTo (currentValue ch) False\<rparr>
                     in if \<not> isFirstChange ch then s'\<lparr>timeouts := timeouts s' @ [FocusField]\<rparr> else s'))
      in case changes_validationRules c of
           None \<Rightarrow> Returns s2
         | Some ch \<Rightarrow>
             (let (h, rs) = copy (heap s2) (defaultTo (currentValue ch) []);
                  s3 = s2\<lparr>heap := h, validationRules := Some rs\<rparr>
              in if data s3 \<noteq> '''' \<and> \<not> isFirstChange ch
                 then (case ngModel s3 of
                         None \<Rightarrow> Throws TypeError s3
                       | Some m \<Rightarrow> Returns (validate m s3))
                 else Returns s3))"

subsection \<open>Runs of the component\<close>

text \<open>
  The framework assigns a binding to the controller when the value of the host has
  changed. \<open>Bind\<close> assigns the bindings that the controller reads as they are, all at
  once, from a record that carries their values. \<^verbatim>\<open>ctrl.inputValue\<close> is assigned too, but the
  controller never reads it: the value reaches it through the changes object of
  \<^verbatim>\<open>$onChanges\<close>. \<^verbatim>\<open>ctrl.validationRules\<close> is assigned the list of the caller itself, which is
  \<open>bindValidationRules\<close>; the hook \<^verbatim>\<open>$onChanges\<close>, which replaces the list by a copy, is called
  at once for the first change and after the digest for a later one, so other steps can
  run between the two. The references of a list that the host binds denote objects of the
  store: the step \<open>BindValidationRules\<close> is taken with such a list only.
\<close>

definition bind :: "component \<Rightarrow> component \<Rightarrow> component" where
  "bind b s =
     s\<lparr>autoComplete := autoComplete b, bordersMode := bordersMode b, fieldType := fieldType b,
       formObject := formObject b, hideCounter := hideCounter b,
       inputModelOptions := inputModelOptions b, inputName := inputName b,
       isClearIcon := isClearIcon b, isDataRevert := isDataRevert b, isDisabled := isDisabled b,
       isFocused := isFocused b, onlyValidCharacters := onlyValidCharacters b,
       readOnly := readOnly b, spellcheck := spellcheck b, tabindex := tabindex b,
       tooltip := tooltip b, trim := trim b, updateDataField := updateDataField b,
       validationIsRequired := validationIsRequired b,
       validationMaxLength := validationMaxLength b\<rparr>"

definition bindValidationRules :: "ref list option \<Rightarrow> component \<Rightarrow> component" where
  "bindValidationRules rs s = s\<lparr>validationRules := rs\<rparr>"

text \<open>
  What can happen to a component: the framework assigns bindings and calls the hooks, the
  host creates rule objects, the user acts on the field, timers and digests run.
  \<open>Input\<close> is a keystroke whose commit is debounced, \<open>DebounceElapsed\<close> the commit.
\<close>

datatype action =
  Bind component
| BindValidationRules "ref list option"
| Allocate rule
| OnChanges changes
| OnInit
| PostLink ngModelController
| OnDestroy
| ClearInputField
| OnBlur event
| OnChange
| OnFocus event
| OnKeyDown event
| ToggleValidationPopUp
| DocumentClick event
| Timeout nat geometry
| Input string
| DebounceElapsed
| Digest
| PreventInputBlur

text \<open>
  Modelled from the spec: the template is missing from the source. The specification
  describes \<^verbatim>\<open>ctrl.preventInputBlur\<close> as a focus-retention flag, used to keep the focus
  during an interaction with the pop-over; no function of the controller sets it, so
  setting it is the action \<open>PreventInputBlur\<close> of the template. The listener
  \<^verbatim>\<open>handleDocumentClick\<close> runs on a click only while it is registered.
\<close>

fun step :: "nat \<Rightarrow> action \<Rightarrow> component \<Rightarrow> component" where
  "step ENTER (Bind b) s = bind b s"
| "step ENTER (BindValidationRules rs) s =
     (if list_all (\<lambda>r. r < length (heap s)) (collection rs) then bindValidationRules rs s else s)"
| "step ENTER (Allocate r) s = s\<lparr>heap := heap s @ [r]\<rparr>"
| "step ENTER (OnChanges c) s = stateOf (onChanges c s)"
| "step ENTER OnInit s = onInit s"
| "step ENTER (PostLink m) s = postLink m s"
| "step ENTER OnDestroy s = onDestroy s"
| "step ENTER ClearInputField s = stateOf (clearInputField s)"
| "step ENTER (OnBlur e) s = stateOf (onBlur e s)"
| "step ENTER OnChange s = stateOf (onChange s)"
| "step ENTER (OnFocus e) s = onFocus e s"
| "step ENTER (OnKeyDown e) s = onKeyDown ENTER e s"
| "step ENTER ToggleValidationPopUp s = toggleValidationPopUp s"
| "step ENTER (DocumentClick e) s = (if 0 < documentClick s then handleDocumentClick e s else s)"
| "step ENTER (Timeout i g) s = stateOf (timeout i g s)"
| "step ENTER (Input v) s =
     (case ngModel s of None \<Rightarrow> s | Some m \<Rightarrow> s\<lparr>ngModel := Some (setViewValue v m)\<rparr>)"
| "step ENTER DebounceElapsed s =
     (case ngModel s of None \<Rightarrow> s | Some m \<Rightarrow> commitViewValue m s)"
| "step ENTER Digest s = ngModelWatch s"
| "step ENTER PreventInputBlur s = s\<lparr>preventInputBlur := True\<rparr>"

definition run :: "nat \<Rightarrow> action list \<Rightarrow> component \<Rightarrow> component" where
  "run ENTER as s = fold (step ENTER) as s"
subsection \<open>Notions used by the properties\<close>

text \<open>The invocations of the host's update callback in a trace.\<close>

fun isUpdateDataCallback :: "effect \<Rightarrow> bool" where
  "isUpdateDataCallback (UpdateDataCallback d f) = True"
| "isUpdateDataCallback x = False"

definition updateCalls :: "effect list \<Rightarrow> effect list" where
  "updateCalls tr = filter isUpdateDataCallback tr"

text \<open>
  The document listener is registered at most once, and only while the pop-over is shown.
\<close>

definition listenerDiscipline :: "component \<Rightarrow> bool" where
  "listenerDiscipline s =
     (if isValidationPopUpShown s then documentClick s \<le> 1 else documentClick s = 0)"

text \<open>
  From \<open>s\<close> to \<open>s'\<close> the store keeps its objects and the controller its rule list, only
  objects of that list are written, and of these nothing but \<^verbatim>\<open>isValid\<close>.
\<close>

definition onlyRuleFlags :: "component \<Rightarrow> component \<Rightarrow> bool" where
  "onlyRuleFlags s s' =
     (length (heap s') = length (heap s) \<and> validationRules s' = validationRules s \<and>
      (\<forall>r. r \<notin> set (collection (validationRules s)) \<longrightarrow> heap s' ! r = heap s ! r) \<and>
      (\<forall>r. name (heap s' ! r) = name (heap s ! r) \<and> label (heap s' ! r) = label (heap s ! r) \<and>
           pattern (heap s' ! r) = pattern (heap s ! r)))"

text \<open>The first \<open>n\<close> objects of the store exist and are none of the controller's rules.\<close>

definition separate :: "nat \<Rightarrow> component \<Rightarrow> bool" where
  "separate n s = (n \<le> length (heap s) \<and> list_all (\<lambda>x. n \<le> x) (collection (validationRules s)))"

text \<open>The framework assigns the binding of the rule list.\<close>

fun assignsRules :: "action \<Rightarrow> bool" where
  "assignsRules (BindValidationRules rs) = True"
| "assignsRules a = False"

text \<open>The ten decimal digits.\<close>

definition decimal :: "char \<Rightarrow> bool" where
  "decimal c = (\<exists>d < 10. c = ''0123456789'' ! d)"

subsection \<open>An example configuration\<close>

text \<open>
  The example of the specification: a required field with the pattern \<^verbatim>\<open>/^[A-Z]+$/\<close>,
  here as the first of two rules, the initial value \<^verbatim>\<open>ABC\<close>, revert-on-blur enabled. The
  second rule is a function that reads its three arguments: at most three characters, in
  the field \<^verbatim>\<open>code\<close> of a form that is not submitted.
  \<open>exampleStart\<close> brings a component up as the framework does: the host creates the rule
  objects, the bindings are assigned, \<^verbatim>\<open>$onChanges\<close>, \<^verbatim>\<open>$onInit\<close> and the callback of
  \<^verbatim>\<open>$postLink\<close> run.
\<close>

definition upperCase :: "string \<Rightarrow> bool" where
  "upperCase v = (v \<noteq> [] \<and> list_all (\<lambda>c. c \<in> set ''ABCDEFGHIJKLMNOPQRSTUVWXYZ'') v)"

definition exampleRules :: "rule list" where
  "exampleRules =
     [\<lparr>name = Some ''upper'', label = ''Upper case letters only'', pattern = RegExp upperCase,
       isValid = None\<rparr>,
      \<lparr>name = None, label = ''At most three characters'',
       pattern = Predicate (\<lambda>v n fo. length v \<le> 3 \<and> n = Some ''code'' \<and>
                                      (case fo of None \<Rightarrow> False | Some f \<Rightarrow> \<not> submitted f)),
       isValid = Some False\<rparr>]"

definition exampleBindings :: component where
  "exampleBindings =
     controller\<lparr>formObject := Some \<lparr>submitted = False\<rparr>, inputName := Some ''code'',
                isDataRevert := Some True, validationIsRequired := Some True\<rparr>"

definition exampleModel :: ngModelController where
  "exampleModel =
     \<lparr>viewValue = ''ABC'', lastCommittedViewValue = ''ABC'', rawModelValue = ''ABC'', dirty = False,
      valid = True, invalid = False, templateValidators = (\<lambda>v. v \<noteq> '''')\<rparr>"

definition exampleChanges :: changes where
  "exampleChanges =
     \<lparr>changes_inputValue = Some \<lparr>currentValue = Some ''ABC'', isFirstChange = True\<rparr>,
      changes_isFocused = None,
      changes_validationRules = Some \<lparr>currentValue = Some [0, 1], isFirstChange = True\<rparr>\<rparr>"

definition exampleBound :: component where
  "exampleBound =
     fold (step 13)
       [Allocate (exampleRules ! 0), Allocate (exampleRules ! 1), Bind exampleBindings,
        BindValidationRules (Some [0, 1])]
       controller"

definition exampleStartWith :: "component \<Rightarrow> action list" where
  "exampleStartWith b =
     [Allocate (exampleRules ! 0), Allocate (exampleRules ! 1), Bind b,
      BindValidationRules (Some [0, 1]), OnChanges exampleChanges, OnInit, PostLink exampleModel]"

definition exampleStart :: "action list" where
  "exampleStart = exampleStartWith exampleBindings"

definition exampleLinked :: component where
  "exampleLinked = run 13 exampleStart controller"

definition blurEvent :: event where
  "blurEvent = \<lparr>target = InputField, keyCode = 0\<rparr>"

text \<open>The user has typed \<^verbatim>\<open>abc\<close>, and the value is committed.\<close>

definition exampleTyped :: component where
  "exampleTyped = run 13 (exampleStart @ [Input ''abc'', DebounceElapsed]) controller"

text \<open>The host changes the bound value to \<^verbatim>\<open>undefined\<close>, or to \<^verbatim>\<open>abc\<close>.\<close>

definition exampleUnset :: changes where
  "exampleUnset =
     \<lparr>changes_inputValue = Some \<lparr>currentValue = None, isFirstChange = False\<rparr>,
      changes_isFocused = None, changes_validationRules = None\<rparr>"

definition exampleLowerCase :: changes where
  "exampleLowerCase =
     \<lparr>changes_inputValue = Some \<lparr>currentValue = Some ''abc'', isFirstChange = False\<rparr>,
      changes_isFocused = None, changes_validationRules = None\<rparr>"

definition examplePristine :: component where
  "examplePristine = run 13 (exampleStart @ [OnChanges exampleLowerCase, Digest]) controller"

text \<open>The field with \<^verbatim>\<open>onlyValidCharacters\<close>, after the user has typed \<^verbatim>\<open>abc\<close>.\<close>

definition exampleOnlyValid :: component where
  "exampleOnlyValid =
     run 13 (exampleStartWith (exampleBindings\<lparr>onlyValidCharacters := Some True\<rparr>) @
             [Input ''abc'', DebounceElapsed])
       controller"

text \<open>An optional field whose bound value the host has changed to \<^verbatim>\<open>undefined\<close>.\<close>

definition exampleOptional :: component where
  "exampleOptional =
     run 13 (exampleStartWith (exampleBindings\<lparr>validationIsRequired := None\<rparr>) @ [OnChanges exampleUnset])
       controller"

text \<open>
  The counter example of the specification: a maximum length of 5 and the value
  \<^verbatim>\<open>Hello\<close>, then \<^verbatim>\<open>Hello!\<close>; and a maximum length that is no number.
\<close>

definition exampleCounter :: "string \<Rightarrow> component" where
  "exampleCounter v =
     run 13 (exampleStartWith (exampleBindings\<lparr>validationMaxLength := Some ''5''\<rparr>) @
             [Input v, DebounceElapsed])
       controller"

definition exampleNoNumber :: component where
  "exampleNoNumber =
     run 13 (exampleStartWith (exampleBindings\<lparr>validationMaxLength := Some ''abc''\<rparr>)) controller"


text \<open>
  States of the required field of the example. The user has typed \<^verbatim>\<open>AB\<close>, and then the host
  has changed the name of the field, which the second rule reads; the user has typed
  \<^verbatim>\<open>abc\<close>, and then the host has changed the bound value to \<^verbatim>\<open>AB\<close>, the digest that follows
  not yet run; the user has typed \<^verbatim>\<open>AB\<close> and then used the clear icon; the host has left
  the second rule only, and the user has emptied the field.
\<close>

definition exampleValid :: component where
  "exampleValid = run 13 (exampleStart @ [Input ''AB'', DebounceElapsed]) controller"

definition exampleRenamed :: component where
  "exampleRenamed =
     run 13 (exampleStart @
             [Input ''AB'', DebounceElapsed, Bind (exampleBindings\<lparr>inputName := Some ''name''\<rparr>)])
       controller"

definition exampleShort :: changes where
  "exampleShort =
     \<lparr>changes_inputValue = Some \<lparr>currentValue = Some ''AB'', isFirstChange = False\<rparr>,
      changes_isFocused = None, changes_validationRules = None\<rparr>"

definition exampleRebound :: component where
  "exampleRebound =
     run 13 (exampleStart @ [Input ''abc'', DebounceElapsed, OnChanges exampleShort]) controller"

definition exampleCleared :: component where
  "exampleCleared =
     run 13 (exampleStart @ [Input ''AB'', DebounceElapsed, ClearInputField]) controller"

definition exampleSecondRule :: changes where
  "exampleSecondRule =
     \<lparr>changes_inputValue = None, changes_isFocused = None,
      changes_validationRules = Some \<lparr>currentValue = Some [1], isFirstChange = False\<rparr>\<rparr>"

definition exampleEmptied :: component where
  "exampleEmptied =
     run 13 (exampleStart @
             [BindValidationRules (Some [1]), OnChanges exampleSecondRule, Input '''', DebounceElapsed])
       controller"

text \<open>
  The host has changed the bound value of the required field to \<^verbatim>\<open>abc\<close>, and the user
  types \<^verbatim>\<open>abcd\<close>; the user has cleared the required field with the clear icon, and types
  \<^verbatim>\<open>abc\<close>. In both states the commit of the typed value is pending.
\<close>

definition exampleHostInvalid :: component where
  "exampleHostInvalid =
     run 13 (exampleStart @ [OnChanges exampleLowerCase, Digest, Input ''abcd'']) controller"

definition exampleClearedTyped :: component where
  "exampleClearedTyped =
     run 13 (exampleStart @ [ClearInputField, Digest, Input ''abc'']) controller"

text \<open>
  An optional field with a maximum length of 3, which the template validates, as the
  description of \<^verbatim>\<open>validationMaxLength\<close> says; the user has typed \<^verbatim>\<open>ABCD\<close>.
\<close>

definition exampleMaxLength :: ngModelController where
  "exampleMaxLength = exampleModel\<lparr>templateValidators := (\<lambda>v. length v \<le> 3)\<rparr>"

definition exampleTooLong :: component where
  "exampleTooLong =
     run 13 [Allocate (exampleRules ! 0), Allocate (exampleRules ! 1),
             Bind (exampleBindings\<lparr>validationIsRequired := None, validationMaxLength := Some ''3''\<rparr>),
             BindValidationRules (Some [0, 1]), OnChanges exampleChanges, OnInit,
             PostLink exampleMaxLength, Input ''ABCD'', DebounceElapsed]
       controller"

text \<open>
  The user has typed \<^verbatim>\<open>abcd\<close> into the required field and left it, and the value has been
  reverted to \<^verbatim>\<open>ABC\<close>; the host then binds the two rules in the other order.
\<close>

definition exampleReverted :: component where
  "exampleReverted = run 13 (exampleStart @ [Input ''abcd'', OnBlur blurEvent]) controller"

definition exampleReordered :: changes where
  "exampleReordered =
     \<lparr>changes_inputValue = None, changes_isFocused = None,
      changes_validationRules = Some \<lparr>currentValue = Some [1, 0], isFirstChange = False\<rparr>\<rparr>"

section \<open>Properties\<close>

subsection \<open>The loops over the rule objects\<close>

lemma length_assignIsValid [simp]: "length (assignIsValid b r h) = length h"
  by (simp add: assignIsValid_def)

lemma pattern_assignIsValid [simp]: "pattern (assignIsValid b r h ! x) = pattern (h ! x)"
  by (cases "r < length h"; cases "x = r") (simp_all add: assignIsValid_def list_update_beyond)

lemma name_assignIsValid [simp]: "name (assignIsValid b r h ! x) = name (h ! x)"
  by (cases "r < length h"; cases "x = r") (simp_all add: assignIsValid_def list_update_beyond)

lemma label_assignIsValid [simp]: "label (assignIsValid b r h ! x) = label (h ! x)"
  by (cases "r < length h"; cases "x = r") (simp_all add: assignIsValid_def list_update_beyond)

lemma isValid_assignIsValid:
  "isValid (assignIsValid b r h ! x) = (if x = r \<and> r < length h then Some b else isValid (h ! x))"
  by (cases "r < length h"; cases "x = r") (simp_all add: assignIsValid_def list_update_beyond)

lemma nth_assignIsValid_other: "x \<noteq> r \<Longrightarrow> assignIsValid b r h ! x = h ! x"
  by (simp add: assignIsValid_def)

text \<open>The loop of \<^verbatim>\<open>checkPatternsValidity\<close> changes the store and the trace, nothing else.\<close>

lemma fold_checkRule:
  "fold (checkRule v) rs s =
     s\<lparr>heap := fold (\<lambda>r h. assignIsValid (matches (pattern (h ! r)) v (inputName s) (formObject s)) r h)
                  rs (heap s),
       trace := trace s @ map (\<lambda>r. evaluation r (pattern (heap s ! r)) v (inputName s) (formObject s)) rs\<rparr>"
proof (induction rs arbitrary: s)
  case Nil
  show ?case by simp
next
  case (Cons r rs)
  show ?case
    by (simp add: Cons.IH) (simp add: checkRule_def Let_def)
qed

lemma checked_length [simp]:
  "length (fold (\<lambda>r h. assignIsValid (matches (pattern (h ! r)) v n fo) r h) rs h) = length h"
  by (induction rs arbitrary: h) simp_all

lemma checked_pattern [simp]:
  "pattern (fold (\<lambda>r h. assignIsValid (matches (pattern (h ! r)) v n fo) r h) rs h ! x) = pattern (h ! x)"
  by (induction rs arbitrary: h) simp_all

lemma checked_name_label [simp]:
  "name (fold (\<lambda>r h. assignIsValid (matches (pattern (h ! r)) v n fo) r h) rs h ! x) = name (h ! x)"
  "label (fold (\<lambda>r h. assignIsValid (matches (pattern (h ! r)) v n fo) r h) rs h ! x) = label (h ! x)"
  by (induction rs arbitrary: h) simp_all

lemma checked_isValid:
  "isValid (fold (\<lambda>r h. assignIsValid (matches (pattern (h ! r)) v n fo) r h) rs h ! x) =
     (if x \<in> set rs \<and> x < length h then Some (matches (pattern (h ! x)) v n fo) else isValid (h ! x))"
  by (induction rs arbitrary: h) (auto simp: isValid_assignIsValid)

lemma checked_other:
  "x \<notin> set rs \<Longrightarrow>
     fold (\<lambda>r h. assignIsValid (matches (pattern (h ! r)) v n fo) r h) rs h ! x = h ! x"
  by (induction rs arbitrary: h) (simp_all add: nth_assignIsValid_other)

lemma fold_resetRule:
  "fold resetRule rs s = s\<lparr>heap := fold (assignIsValid True) rs (heap s)\<rparr>"
  by (induction rs arbitrary: s) (simp_all add: resetRule_def)

lemma reset_length [simp]: "length (fold (assignIsValid True) rs h) = length h"
  by (induction rs arbitrary: h) simp_all

lemma reset_pattern [simp]: "pattern (fold (assignIsValid True) rs h ! x) = pattern (h ! x)"
  by (induction rs arbitrary: h) simp_all

lemma reset_name_label [simp]:
  "name (fold (assignIsValid True) rs h ! x) = name (h ! x)"
  "label (fold (assignIsValid True) rs h ! x) = label (h ! x)"
  by (induction rs arbitrary: h) simp_all

lemma reset_isValid:
  "isValid (fold (assignIsValid True) rs h ! x) =
     (if x \<in> set rs \<and> x < length h then Some True else isValid (h ! x))"
  by (induction rs arbitrary: h) (auto simp: isValid_assignIsValid)

lemma reset_other: "x \<notin> set rs \<Longrightarrow> fold (assignIsValid True) rs h ! x = h ! x"
  by (induction rs arbitrary: h) (simp_all add: nth_assignIsValid_other)

text \<open>The code evaluates a rule as \<open>ruleHolds\<close> says, by the call that \<open>ruleCall\<close> says.\<close>

lemma ruleHolds_matches:
  "ruleHolds s v r = matches (pattern (heap s ! r)) v (inputName s) (formObject s)"
  by (cases "pattern (heap s ! r)") (simp_all add: ruleHolds_def)


lemma hasInvalidRule_checked:
  assumes "rulesAllocated s"
  shows "hasInvalidRule (fold (checkRule v) (collection (validationRules s)) s) =
           (\<not> list_all (ruleHolds s v) (collection (validationRules s)))"
  using assms
  by (auto simp: hasInvalidRule_def rulesAllocated_def fold_checkRule checked_isValid ruleHolds_matches
        list_all_iff list_ex_iff)

subsection \<open>What a validation changes\<close>

lemma validator_frame:
  "snd (validationRulesValidator v s) =
     s\<lparr>heap := heap (snd (validationRulesValidator v s)),
       trace := trace (snd (validationRulesValidator v s))\<rparr>"
  by (simp add: validationRulesValidator_def resetPatternsValidity_def checkPatternsValidity_def
        Let_def fold_checkRule fold_resetRule)

lemma isUpdate_evaluation [simp]: "\<not> isUpdateDataCallback (evaluation r p v n fo)"
  by (cases p) simp_all

lemma updateCalls_append [simp]: "updateCalls (xs @ ys) = updateCalls xs @ updateCalls ys"
  by (simp add: updateCalls_def)

lemma updateCalls_simps [simp]:
  "updateCalls [] = []"
  "updateCalls (UpdateDataCallback d f # xs) = UpdateDataCallback d f # updateCalls xs"
  "updateCalls (ItemBlurCallback e d n # xs) = updateCalls xs"
  by (simp_all add: updateCalls_def)

text \<open>A validation calls rule matchers, never the update callback.\<close>

lemma validator_updateCalls:
  "updateCalls (trace (snd (validationRulesValidator v s))) = updateCalls (trace s)"
  by (simp add: validationRulesValidator_def resetPatternsValidity_def checkPatternsValidity_def
        Let_def fold_checkRule fold_resetRule)
     (simp add: updateCalls_def)

lemma validator_verdict:
  assumes "rulesAllocated s"
  shows "fst (validationRulesValidator v s) =
           ((\<not> truthy (validationIsRequired s) \<and> data s = '''') \<or>
            list_all (ruleHolds s v) (collection (validationRules s)))"
  using assms
  by (simp add: validationRulesValidator_def checkPatternsValidity_def Let_def hasInvalidRule_checked)

lemma validator_heap_length [simp]:
  "length (heap (snd (validationRulesValidator v s))) = length (heap s)"
  by (simp add: validationRulesValidator_def resetPatternsValidity_def checkPatternsValidity_def
        Let_def fold_checkRule fold_resetRule)

lemma validator_heap_pattern [simp]:
  "pattern (heap (snd (validationRulesValidator v s)) ! r) = pattern (heap s ! r)"
  by (simp add: validationRulesValidator_def resetPatternsValidity_def checkPatternsValidity_def
        Let_def fold_checkRule fold_resetRule)

lemma validator_heap_name_label [simp]:
  "name (heap (snd (validationRulesValidator v s)) ! r) = name (heap s ! r)"
  "label (heap (snd (validationRulesValidator v s)) ! r) = label (heap s ! r)"
  by (simp_all add: validationRulesValidator_def resetPatternsValidity_def checkPatternsValidity_def
        Let_def fold_checkRule fold_resetRule)

lemma validator_heap_other:
  "r \<notin> set (collection (validationRules s)) \<Longrightarrow>
     heap (snd (validationRulesValidator v s)) ! r = heap s ! r"
  by (simp add: validationRulesValidator_def resetPatternsValidity_def checkPatternsValidity_def
        Let_def fold_checkRule fold_resetRule checked_other reset_other)

lemma runValidators_eq:
  "runValidators m v s =
     s\<lparr>heap := heap (snd (validationRulesValidator v s)),
       trace := trace (snd (validationRulesValidator v s)),
       ngModel := Some (m\<lparr>valid := templateValidators m v \<and> fst (validationRulesValidator v s),
                          invalid := \<not> (templateValidators m v \<and> fst (validationRulesValidator v s))\<rparr>)\<rparr>"
proof -
  obtain ok s' where v: "validationRulesValidator v s = (ok, s')"
    by (cases "validationRulesValidator v s")
  have eq: "s' = s\<lparr>heap := heap s', trace := trace s'\<rparr>"
    using validator_frame [of v s] by (simp add: v)
  have "s'\<lparr>ngModel := x\<rparr> = s\<lparr>heap := heap s', trace := trace s', ngModel := x\<rparr>" for x
    by (subst eq) simp
  then show ?thesis
    by (simp add: runValidators_def v)
qed

lemma validate_eq:
  "validate m s =
     s\<lparr>heap := heap (snd (validationRulesValidator (rawModelValue m) s)),
       trace := trace (snd (validationRulesValidator (rawModelValue m) s)),
       ngModel := Some (m\<lparr>valid := templateValidators m (rawModelValue m) \<and>
                                    fst (validationRulesValidator (rawModelValue m) s),
                          invalid := \<not> (templateValidators m (rawModelValue m) \<and>
                                         fst (validationRulesValidator (rawModelValue m) s))\<rparr>)\<rparr>"
  by (simp add: validate_def runValidators_eq)

text \<open>A second validation of the same value gives the same verdict.\<close>

lemma verdict_stable:
  assumes "rulesAllocated s"
    and "validationIsRequired s' = validationIsRequired s" and "data s' = data s"
    and "validationRules s' = validationRules s" and "inputName s' = inputName s"
    and "formObject s' = formObject s"
    and "heap s' = heap (snd (validationRulesValidator w s))"
  shows "fst (validationRulesValidator v s') = fst (validationRulesValidator v s)"
proof -
  have a: "rulesAllocated s'"
    using assms by (simp add: rulesAllocated_def)
  have "ruleHolds s' v r = ruleHolds s v r" for r
    using assms by (simp add: ruleHolds_matches)
  then have "ruleHolds s' v = ruleHolds s v" by (rule ext)
  then show ?thesis
    using assms by (simp add: validator_verdict a)
qed
subsection \<open>The copy of the rule list\<close>

lemma copyRules_structure:
  assumes "\<forall>(a, a') \<in> set seen. n \<le> a' \<and> a' < length h" and "n \<le> length h"
  shows "(\<exists>ext. fst (copyRules h seen rs) = h @ ext) \<and>
         length (snd (copyRules h seen rs)) = length rs \<and>
         (\<forall>x \<in> set (snd (copyRules h seen rs)). n \<le> x \<and> x < length (fst (copyRules h seen rs)))"
  using assms
proof (induction rs arbitrary: h seen)
  case Nil
  then show ?case by simp
next
  case (Cons r rs)
  show ?case
  proof (cases "map_of seen r")
    case None
    let ?h = "h @ [h ! r]" and ?seen = "(r, length h) # seen"
    have "\<forall>(a, a') \<in> set ?seen. n \<le> a' \<and> a' < length ?h"
      using Cons.prems by auto
    moreover have "n \<le> length ?h" using Cons.prems by simp
    ultimately have IH: "(\<exists>ext. fst (copyRules ?h ?seen rs) = ?h @ ext) \<and>
         length (snd (copyRules ?h ?seen rs)) = length rs \<and>
         (\<forall>x \<in> set (snd (copyRules ?h ?seen rs)). n \<le> x \<and> x < length (fst (copyRules ?h ?seen rs)))"
      by (rule Cons.IH)
    then obtain ext where e: "fst (copyRules ?h ?seen rs) = ?h @ ext" by blast
    show ?thesis
      using None IH Cons.prems(2) by (auto simp: split_beta Let_def e)
  next
    case (Some r')
    then have "(r, r') \<in> set seen" by (rule map_of_SomeD)
    then have r': "n \<le> r'" "r' < length h" using Cons.prems(1) by auto
    have IH: "(\<exists>ext. fst (copyRules h seen rs) = h @ ext) \<and>
         length (snd (copyRules h seen rs)) = length rs \<and>
         (\<forall>x \<in> set (snd (copyRules h seen rs)). n \<le> x \<and> x < length (fst (copyRules h seen rs)))"
      using Cons.prems by (rule Cons.IH)
    then obtain ext where e: "fst (copyRules h seen rs) = h @ ext" by blast
    show ?thesis
      using Some IH r' by (auto simp: split_beta e)
  qed
qed

text \<open>The copy extends the store, and the copies are new objects.\<close>

lemma copy_structure:
  "(\<exists>ext. fst (copy h rs) = h @ ext) \<and>
   length (snd (copy h rs)) = length rs \<and>
   (\<forall>x \<in> set (snd (copy h rs)). length h \<le> x \<and> x < length (fst (copy h rs)))"
  unfolding copy_def by (rule copyRules_structure) simp_all

lemma copyRules_content:
  assumes "\<forall>(a, a') \<in> set seen. a' < length h \<and> h ! a' = h ! a \<and> a < n"
    and "n \<le> length h" and "\<forall>r \<in> set rs. r < n"
  shows "\<forall>i < length rs. fst (copyRules h seen rs) ! (snd (copyRules h seen rs) ! i) = h ! (rs ! i)"
  using assms
proof (induction rs arbitrary: h seen)
  case Nil
  then show ?case by simp
next
  case (Cons r rs)
  have rn: "r < n" "r < length h" using Cons.prems by auto
  show ?case
  proof (cases "map_of seen r")
    case None
    let ?h = "h @ [h ! r]" and ?seen = "(r, length h) # seen"
    have p1: "\<forall>(a, a') \<in> set ?seen. a' < length ?h \<and> ?h ! a' = ?h ! a \<and> a < n"
      using Cons.prems(1,2) rn by (auto simp: nth_append)
    have p2: "n \<le> length ?h" using Cons.prems(2) by simp
    have p3: "\<forall>r \<in> set rs. r < n" using Cons.prems(3) by simp
    have IH: "\<forall>i < length rs. fst (copyRules ?h ?seen rs) ! (snd (copyRules ?h ?seen rs) ! i) = ?h ! (rs ! i)"
      using p1 p2 p3 by (rule Cons.IH)
    obtain ext where e: "fst (copyRules ?h ?seen rs) = ?h @ ext"
      using copyRules_structure [of ?seen 0 ?h rs] p1 by auto
    have tl: "?h ! (rs ! i) = h ! (rs ! i)" if "i < length rs" for i
    proof -
      have "rs ! i < n" using p3 that by simp
      then show ?thesis using Cons.prems(2) by (simp add: nth_append)
    qed
    show ?thesis
    proof (intro allI impI)
      fix i assume "i < length (r # rs)"
      then show "fst (copyRules h seen (r # rs)) ! (snd (copyRules h seen (r # rs)) ! i) = h ! ((r # rs) ! i)"
        using None IH tl by (cases i) (simp_all add: split_beta Let_def e nth_append)
    qed
  next
    case (Some r')
    then have "(r, r') \<in> set seen" by (rule map_of_SomeD)
    then have r': "r' < length h" "h ! r' = h ! r" using Cons.prems(1) by auto
    have IH: "\<forall>i < length rs. fst (copyRules h seen rs) ! (snd (copyRules h seen rs) ! i) = h ! (rs ! i)"
      using Cons.prems by (intro Cons.IH) simp_all
    obtain ext where e: "fst (copyRules h seen rs) = h @ ext"
      using copyRules_structure [of seen 0 h rs] Cons.prems(1) by auto
    show ?thesis
    proof (intro allI impI)
      fix i assume "i < length (r # rs)"
      then show "fst (copyRules h seen (r # rs)) ! (snd (copyRules h seen (r # rs)) ! i) = h ! ((r # rs) ! i)"
        using Some IH r' by (cases i) (simp_all add: split_beta e nth_append)
    qed
  qed
qed

text \<open>Every copy is equal to the object it was copied from.\<close>

lemma copy_content:
  assumes "\<forall>r \<in> set rs. r < length h"
  shows "\<forall>i < length rs. fst (copy h rs) ! (snd (copy h rs) ! i) = h ! (rs ! i)"
  unfolding copy_def using assms by (intro copyRules_content [where n = "length h"]) simp_all

subsection \<open>Which objects the steps of a component write\<close>

lemma onlyRuleFlags_refl: "onlyRuleFlags s s"
  by (simp add: onlyRuleFlags_def)

lemma onlyRuleFlags_runValidators: "onlyRuleFlags s (runValidators m v s)"
  by (simp add: onlyRuleFlags_def runValidators_eq validator_heap_other)

lemma onlyRuleFlags_validate: "onlyRuleFlags s (validate m s)"
  by (simp add: validate_def onlyRuleFlags_runValidators)

lemma onlyRuleFlags_onChange: "onlyRuleFlags s (stateOf (onChange s))"
  by (simp add: onlyRuleFlags_def onChange_def Let_def validate_eq validator_heap_other
        split: option.splits)

lemma onlyRuleFlags_commitViewValue: "onlyRuleFlags s (commitViewValue m s)"
  by (simp add: onlyRuleFlags_def commitViewValue_def onChange_def Let_def validate_eq
        runValidators_eq validator_heap_other)

lemma onlyRuleFlags_onBlur: "onlyRuleFlags s (stateOf (onBlur e s))"
  using onlyRuleFlags_commitViewValue [of "s\<lparr>inputFocused := False\<rparr>"]
  by (simp add: onlyRuleFlags_def onBlur_def Let_def setOrRevertInputValue_def split: option.splits)

lemma onlyRuleFlags_clearInputField: "onlyRuleFlags s (stateOf (clearInputField s))"
  using onlyRuleFlags_commitViewValue [of "s\<lparr>ngModel := Some (setViewValue '''' (the (ngModel s)))\<rparr>"]
        onlyRuleFlags_onChange [of "s\<lparr>data := ''''\<rparr>"]
  by (auto simp: onlyRuleFlags_def clearInputField_def Let_def split: option.splits)

lemma onlyRuleFlags_postLink: "onlyRuleFlags s (postLink m s)"
  using onlyRuleFlags_validate [of "s\<lparr>ngModel := Some m\<rparr>" m]
  by (simp add: onlyRuleFlags_def postLink_def Let_def)

lemma onlyRuleFlags_ngModelWatch: "onlyRuleFlags s (ngModelWatch s)"
  by (simp add: onlyRuleFlags_def ngModelWatch_def runValidators_eq validator_heap_other
        split: option.splits)

lemma onlyRuleFlags_timeout: "onlyRuleFlags s (stateOf (timeout i g s))"
  by (cases "timeouts s ! i") (simp_all add: onlyRuleFlags_def timeout_def)

lemma onlyRuleFlags_onInit: "onlyRuleFlags s (onInit s)"
  by (cases "fieldType s"; cases "bordersMode s") (simp_all add: onlyRuleFlags_def onInit_def Let_def)

lemma onlyRuleFlags_rulesAllocated:
  assumes "onlyRuleFlags s s'" and "rulesAllocated s"
  shows "rulesAllocated s'"
  using assms by (simp add: onlyRuleFlags_def rulesAllocated_def)

lemma onlyRuleFlags_separate:
  assumes "onlyRuleFlags s s'" and "separate n s"
  shows "separate n s' \<and> (\<forall>r < n. heap s' ! r = heap s ! r)"
proof -
  have "r \<notin> set (collection (validationRules s))" if "r < n" for r
    using assms(2) that by (auto simp: separate_def list_all_iff)
  then have "\<forall>r < n. heap s' ! r = heap s ! r"
    using assms(1) by (simp add: onlyRuleFlags_def)
  moreover have "separate n s'"
    using assms by (simp add: onlyRuleFlags_def separate_def)
  ultimately show ?thesis by blast
qed

text \<open>
  Every step but a change of the rule list, by the framework or by \<^verbatim>\<open>$onChanges\<close>, and an
  allocation by the host.
\<close>

lemma step_onlyRuleFlags:
  assumes "\<forall>c. a \<noteq> OnChanges c" and "\<forall>r. a \<noteq> Allocate r" and "\<not> assignsRules a"
  shows "onlyRuleFlags s (step ENTER a s)"
  using assms
  by (cases a)
     (simp_all add: onlyRuleFlags_onInit onlyRuleFlags_postLink onlyRuleFlags_clearInputField
        onlyRuleFlags_onBlur onlyRuleFlags_onChange onlyRuleFlags_timeout onlyRuleFlags_ngModelWatch
        onlyRuleFlags_commitViewValue onlyRuleFlags_refl split: option.splits,
      simp_all add: onlyRuleFlags_def bind_def onDestroy_def onFocus_def onKeyDown_def
        toggleValidationPopUp_def handleDocumentClick_def Let_def split: option.splits)

lemma onChanges_unchanged_rules:
  assumes "changes_validationRules c = None"
  shows "validationRules (stateOf (onChanges c s)) = validationRules s \<and>
         heap (stateOf (onChanges c s)) = heap s"
  using assms by (simp add: onChanges_def Let_def split: option.splits)

lemma onChanges_new_rules:
  assumes "changes_validationRules c = Some ch"
  shows "validationRules (stateOf (onChanges c s)) = Some (snd (copy (heap s) (defaultTo (currentValue ch) []))) \<and>
         length (heap (stateOf (onChanges c s))) = length (fst (copy (heap s) (defaultTo (currentValue ch) []))) \<and>
         (\<forall>r. r \<notin> set (snd (copy (heap s) (defaultTo (currentValue ch) []))) \<longrightarrow>
              heap (stateOf (onChanges c s)) ! r = fst (copy (heap s) (defaultTo (currentValue ch) [])) ! r) \<and>
         (\<forall>r. name (heap (stateOf (onChanges c s)) ! r) = name (fst (copy (heap s) (defaultTo (currentValue ch) [])) ! r) \<and>
              label (heap (stateOf (onChanges c s)) ! r) = label (fst (copy (heap s) (defaultTo (currentValue ch) [])) ! r) \<and>
              pattern (heap (stateOf (onChanges c s)) ! r) = pattern (fst (copy (heap s) (defaultTo (currentValue ch) [])) ! r))"
  using assms
  by (simp add: onChanges_def Let_def split_beta validate_eq validator_heap_other split: option.splits)

lemma onChanges_keeps_objects:
  "length (heap s) \<le> length (heap (stateOf (onChanges c s))) \<and>
   (\<forall>r < length (heap s). heap (stateOf (onChanges c s)) ! r = heap s ! r)"
proof (cases "changes_validationRules c")
  case None
  then show ?thesis by (simp add: onChanges_unchanged_rules)
next
  case (Some ch)
  let ?rs = "defaultTo (currentValue ch) []"
  obtain ext where e: "fst (copy (heap s) ?rs) = heap s @ ext"
    using copy_structure [of "heap s" ?rs] by blast
  have fresh: "\<forall>x \<in> set (snd (copy (heap s) ?rs)). length (heap s) \<le> x"
    using copy_structure [of "heap s" ?rs] by blast
  have "heap (stateOf (onChanges c s)) ! r = heap s ! r" if "r < length (heap s)" for r
  proof -
    have "r \<notin> set (snd (copy (heap s) ?rs))" using fresh that by auto
    then have "heap (stateOf (onChanges c s)) ! r = fst (copy (heap s) ?rs) ! r"
      using onChanges_new_rules [OF Some, of s] by blast
    then show ?thesis using that by (simp add: e nth_append)
  qed
  moreover have "length (heap s) \<le> length (heap (stateOf (onChanges c s)))"
    using onChanges_new_rules [OF Some, of s] by (simp add: e)
  ultimately show ?thesis by blast
qed

lemma onChanges_rulesAllocated:
  assumes "rulesAllocated s"
  shows "rulesAllocated (stateOf (onChanges c s))"
proof (cases "changes_validationRules c")
  case None
  then show ?thesis using assms by (simp add: rulesAllocated_def onChanges_unchanged_rules)
next
  case (Some ch)
  show ?thesis
    using onChanges_new_rules [OF Some, of s] copy_structure [of "heap s" "defaultTo (currentValue ch) []"]
    by (simp add: rulesAllocated_def list_all_iff)
qed

lemma onChanges_separate:
  assumes "separate n s"
  shows "separate n (stateOf (onChanges c s))"
proof (cases "changes_validationRules c")
  case None
  then show ?thesis using assms by (simp add: separate_def onChanges_unchanged_rules)
next
  case (Some ch)
  show ?thesis
    using assms onChanges_new_rules [OF Some, of s] copy_structure [of "heap s" "defaultTo (currentValue ch) []"]
      onChanges_keeps_objects [of s c]
    by (auto simp: separate_def list_all_iff)
qed

lemma step_rulesAllocated:
  assumes "rulesAllocated s"
  shows "rulesAllocated (step ENTER a s)"
proof (cases "(\<exists>c. a = OnChanges c) \<or> (\<exists>r. a = Allocate r) \<or> assignsRules a")
  case True
  show ?thesis
  proof (cases a)
    case (OnChanges c)
    then show ?thesis using assms by (simp add: onChanges_rulesAllocated)
  next
    case (Allocate r)
    then show ?thesis using assms by (auto simp: rulesAllocated_def list_all_iff)
  next
    case (BindValidationRules rs)
    then show ?thesis
      using assms by (auto simp: rulesAllocated_def bindValidationRules_def list_all_iff)
  qed (use True in simp_all)
next
  case False
  then show ?thesis
    using step_onlyRuleFlags [of a s ENTER] assms by (auto intro: onlyRuleFlags_rulesAllocated)
qed

text \<open>
  As long as the framework does not assign the binding of the rule list, the steps of a
  component write no object that is none of the controller's rules.
\<close>

lemma step_separate:
  assumes "separate n s" and "\<not> assignsRules a"
  shows "separate n (step ENTER a s) \<and> (\<forall>r < n. heap (step ENTER a s) ! r = heap s ! r)"
proof (cases "(\<exists>c. a = OnChanges c) \<or> (\<exists>r. a = Allocate r)")
  case True
  then show ?thesis
  proof
    assume "\<exists>c. a = OnChanges c"
    then obtain c where a: "a = OnChanges c" by blast
    have "n \<le> length (heap s)" using assms by (simp add: separate_def)
    then show ?thesis
      using onChanges_separate [OF assms(1), of c] onChanges_keeps_objects [of s c] by (simp add: a)
  next
    assume "\<exists>r. a = Allocate r"
    then obtain r where a: "a = Allocate r" by blast
    show ?thesis using assms by (auto simp: a separate_def nth_append)
  qed
next
  case False
  then show ?thesis
    using onlyRuleFlags_separate [OF step_onlyRuleFlags [of a s ENTER] assms(1)] assms(2) by blast
qed

lemma run_rulesAllocated:
  assumes "rulesAllocated s"
  shows "rulesAllocated (run ENTER as s)"
  using assms unfolding run_def
  by (induction as arbitrary: s) (simp_all add: step_rulesAllocated)

text \<open>
  In every state that a component reaches, the references of its rule list denote
  objects: the hypothesis \<open>rulesAllocated\<close> of the theorems holds there.
\<close>

lemma reachable_rulesAllocated: "rulesAllocated (run ENTER as controller)"
  by (rule run_rulesAllocated) (simp add: rulesAllocated_def controller_def)

lemma run_separate:
  assumes "separate n s" and "\<not> list_ex assignsRules as"
  shows "separate n (run ENTER as s) \<and> (\<forall>r < n. heap (run ENTER as s) ! r = heap s ! r)"
  using assms unfolding run_def
proof (induction as arbitrary: s)
  case Nil
  then show ?case by simp
next
  case (Cons a as)
  have a: "\<not> assignsRules a" and as: "\<not> list_ex assignsRules as"
    using Cons.prems(2) by simp_all
  have 1: "separate n (step ENTER a s)" and 2: "\<forall>r < n. heap (step ENTER a s) ! r = heap s ! r"
    using step_separate [OF Cons.prems(1) a] by blast+
  show ?case using Cons.IH [OF 1 as] 2 by simp
qed

subsection \<open>The validator\<close>




text \<open>
  Claim C2. When the field is not required and the current value is empty, the validator
  returns true whatever the rules are, sets \<^verbatim>\<open>isValid\<close> of every configured rule to true
  and evaluates no rule: the trace does not grow.
\<close>

theorem validator_optional_empty:
  assumes "\<not> truthy (validationIsRequired s)" and "data s = ''''" and "rulesAllocated s"
  shows "fst (validationRulesValidator v s) = True \<and>
         (\<forall>r \<in> set (collection (validationRules s)).
            isValid (heap (snd (validationRulesValidator v s)) ! r) = Some True) \<and>
         trace (snd (validationRulesValidator v s)) = trace s"
  using assms
  by (auto simp: validationRulesValidator_def resetPatternsValidity_def fold_resetRule reset_isValid
        rulesAllocated_def list_all_iff)

theorem validator_optional_empty_witness:
  "\<not> truthy (validationIsRequired exampleOptional) \<and> data exampleOptional = '''' \<and>
   rulesAllocated exampleOptional \<and> validationRules exampleOptional = Some [2, 3] \<and>
   fst (validationRulesValidator ''ABcd'' exampleOptional) \<and>
   isValid (heap (snd (validationRulesValidator ''ABcd'' exampleOptional)) ! 2) = Some True \<and>
   isValid (heap (snd (validationRulesValidator ''ABcd'' exampleOptional)) ! 3) = Some True \<and>
   trace (snd (validationRulesValidator ''ABcd'' exampleOptional)) = trace exampleOptional"
proof -
  have h1: "\<not> truthy (validationIsRequired exampleOptional)" by code_simp
  have h2: "data exampleOptional = ''''" by code_simp
  have h3: "rulesAllocated exampleOptional" by code_simp
  have r: "validationRules exampleOptional = Some [2, 3]" by code_simp
  show ?thesis
    using validator_optional_empty [OF h1 h2 h3, of "''ABcd''"] h1 h2 h3 r
    by simp
qed
subsection \<open>The displayed validity\<close>

text \<open>
  Claim C3, amended. In every state that a component reaches, right after a validation
  of the current value, that is when the validators of the model controller have run on
  \<^verbatim>\<open>ctrl.data\<close>, as they do in \<^verbatim>\<open>$validate\<close> when the model value is \<^verbatim>\<open>ctrl.data\<close>, the field is
  displayed as valid exactly if \<^verbatim>\<open>onlyValidCharacters\<close> is set, or the form is not submitted
  and the field is pristine, or the other validators of the field pass and the field is
  not required and empty or all rules evaluate true.
\<close>

theorem displayed_validity_after_validation:
  assumes "s = run ENTER as controller"
  shows "(\<not> isFieldInvalid (runValidators m (data s) s)) =
           (truthy (onlyValidCharacters s) \<or>
            \<not> (get (formObject s) submitted \<or> dirty m) \<or>
            templateValidators m (data s) \<and>
            ((\<not> truthy (validationIsRequired s) \<and> data s = '''') \<or>
             list_all (ruleHolds s (data s)) (collection (validationRules s))))"
proof -
  have "rulesAllocated s"
    unfolding assms by (rule reachable_rulesAllocated)
  then show ?thesis
    by (auto simp: isFieldInvalid_def runValidators_eq validator_verdict)
qed

theorem displayed_validity_after_validation_witness:
  "exampleTyped = run 13 (exampleStart @ [Input ''abc'', DebounceElapsed]) controller \<and>
   data exampleTyped = ''abc'' \<and>
   get (ngModel exampleTyped) (\<lambda>m. rawModelValue m = ''abc'' \<and> dirty m) \<and>
   isFieldInvalid (validate (the (ngModel exampleTyped)) exampleTyped) \<and>
   exampleValid = run 13 (exampleStart @ [Input ''AB'', DebounceElapsed]) controller \<and>
   data exampleValid = ''AB'' \<and>
   get (ngModel exampleValid) (\<lambda>m. rawModelValue m = ''AB'' \<and> dirty m) \<and>
   \<not> isFieldInvalid (validate (the (ngModel exampleValid)) exampleValid)"
proof -
  have d1: "data exampleTyped = ''abc''" by code_simp
  have m1: "get (ngModel exampleTyped) (\<lambda>m. rawModelValue m = ''abc'' \<and> dirty m)" by code_simp
  have v1: "rawModelValue (the (ngModel exampleTyped)) = data exampleTyped" by code_simp
  have r1: "\<not> (truthy (onlyValidCharacters exampleTyped) \<or>
              \<not> (get (formObject exampleTyped) submitted \<or> dirty (the (ngModel exampleTyped))) \<or>
              templateValidators (the (ngModel exampleTyped)) (data exampleTyped) \<and>
              ((\<not> truthy (validationIsRequired exampleTyped) \<and> data exampleTyped = '''') \<or>
               list_all (ruleHolds exampleTyped (data exampleTyped))
                 (collection (validationRules exampleTyped))))"
    by code_simp
  have d2: "data exampleValid = ''AB''" by code_simp
  have m2: "get (ngModel exampleValid) (\<lambda>m. rawModelValue m = ''AB'' \<and> dirty m)" by code_simp
  have v2: "rawModelValue (the (ngModel exampleValid)) = data exampleValid" by code_simp
  have r2: "templateValidators (the (ngModel exampleValid)) (data exampleValid) \<and>
            list_all (ruleHolds exampleValid (data exampleValid)) (collection (validationRules exampleValid))"
    by code_simp
  have a: "isFieldInvalid (runValidators (the (ngModel exampleTyped)) (data exampleTyped) exampleTyped)"
    using displayed_validity_after_validation [OF exampleTyped_def, of "the (ngModel exampleTyped)"] r1
    by blast
  have b: "\<not> isFieldInvalid (runValidators (the (ngModel exampleValid)) (data exampleValid) exampleValid)"
    using displayed_validity_after_validation [OF exampleValid_def, of "the (ngModel exampleValid)"] r2
    by blast
  have a': "isFieldInvalid (validate (the (ngModel exampleTyped)) exampleTyped)"
    using a by (simp add: validate_def v1)
  have b': "\<not> isFieldInvalid (validate (the (ngModel exampleValid)) exampleValid)"
    using b by (simp add: validate_def v2)
  show ?thesis
    using exampleTyped_def exampleValid_def d1 m1 a' d2 m2 b' by blast
qed

text \<open>
  Claim C3 as stated fails, in four ways.

  \<^item> The display is gated. A field whose value the host has set to \<^verbatim>\<open>abc\<close> is required, not
    empty and fails the rule of upper-case letters; it is pristine and its form not
    submitted, so it is not displayed as invalid. A dirty field with
    \<^verbatim>\<open>onlyValidCharacters\<close> is not displayed as invalid either.

  \<^item> The display is the result of the last validation. The host changes the name of a
    dirty field that is valid, and the second rule now fails: nothing validates, and the
    field is displayed as valid. The host changes the value \<^verbatim>\<open>abc\<close> of a dirty field to
    \<^verbatim>\<open>AB\<close>: until the digest validates, the field is displayed as invalid.

  \<^item> A validation can be one of another value than the current one. After the clear icon
    the current value is empty and the field required, the validation was that of the
    model value \<^verbatim>\<open>AB\<close>, and the field is displayed as valid.

  \<^item> The rules are not the only validators. A required field that holds the second rule
    only is emptied by the user: the rule evaluates true on the empty value, the
    validator of required fields fails, and the field is displayed as invalid.
\<close>

theorem displayed_validity_counterexample:
  "\<not> isFieldInvalid examplePristine \<and>
   \<not> ((\<not> truthy (validationIsRequired examplePristine) \<and> data examplePristine = '''') \<or>
      list_all (ruleHolds examplePristine (data examplePristine))
        (collection (validationRules examplePristine))) \<and>
   get (ngModel examplePristine) invalid \<and>
   \<not> isFieldInvalid exampleOnlyValid \<and>
   \<not> ((\<not> truthy (validationIsRequired exampleOnlyValid) \<and> data exampleOnlyValid = '''') \<or>
      list_all (ruleHolds exampleOnlyValid (data exampleOnlyValid))
        (collection (validationRules exampleOnlyValid))) \<and>
   get (ngModel exampleOnlyValid) invalid \<and> get (ngModel exampleOnlyValid) dirty \<and>
   \<not> truthy (onlyValidCharacters exampleRenamed) \<and> get (ngModel exampleRenamed) dirty \<and>
   get (ngModel exampleRenamed) (\<lambda>m. rawModelValue m = data exampleRenamed) \<and>
   \<not> isFieldInvalid exampleRenamed \<and>
   \<not> ((\<not> truthy (validationIsRequired exampleRenamed) \<and> data exampleRenamed = '''') \<or>
      list_all (ruleHolds exampleRenamed (data exampleRenamed))
        (collection (validationRules exampleRenamed))) \<and>
   \<not> truthy (onlyValidCharacters exampleRebound) \<and> get (ngModel exampleRebound) dirty \<and>
   isFieldInvalid exampleRebound \<and>
   ((\<not> truthy (validationIsRequired exampleRebound) \<and> data exampleRebound = '''') \<or>
    list_all (ruleHolds exampleRebound (data exampleRebound))
      (collection (validationRules exampleRebound))) \<and>
   get (ngModel exampleRebound) (\<lambda>m. templateValidators m (data exampleRebound)) \<and>
   \<not> truthy (onlyValidCharacters exampleCleared) \<and> get (ngModel exampleCleared) dirty \<and>
   data exampleCleared = '''' \<and> get (ngModel exampleCleared) (\<lambda>m. rawModelValue m = ''AB'') \<and>
   get (ngModel exampleCleared)
     (\<lambda>m. isFieldInvalid (validate m exampleCleared) = isFieldInvalid exampleCleared) \<and>
   \<not> isFieldInvalid exampleCleared \<and>
   \<not> ((\<not> truthy (validationIsRequired exampleCleared) \<and> data exampleCleared = '''') \<or>
      list_all (ruleHolds exampleCleared (data exampleCleared))
        (collection (validationRules exampleCleared))) \<and>
   \<not> truthy (onlyValidCharacters exampleEmptied) \<and> get (ngModel exampleEmptied) dirty \<and>
   data exampleEmptied = '''' \<and> get (ngModel exampleEmptied) (\<lambda>m. rawModelValue m = '''') \<and>
   get (ngModel exampleEmptied)
     (\<lambda>m. isFieldInvalid (validate m exampleEmptied) = isFieldInvalid exampleEmptied) \<and>
   isFieldInvalid exampleEmptied \<and>
   ((\<not> truthy (validationIsRequired exampleEmptied) \<and> data exampleEmptied = '''') \<or>
    list_all (ruleHolds exampleEmptied (data exampleEmptied))
      (collection (validationRules exampleEmptied))) \<and>
   get (ngModel exampleEmptied) (\<lambda>m. \<not> templateValidators m (data exampleEmptied))"
  by code_simp

subsection \<open>The change protocol\<close>

text \<open>
  What \<^verbatim>\<open>onChange\<close> does: it validates the model value, and then with revert-on-blur it
  makes \<^verbatim>\<open>ctrl.data\<close> the last valid value if that validation succeeded, and does not
  invoke the update callback; without revert-on-blur it invokes the update callback with
  \<^verbatim>\<open>ctrl.data\<close> and \<^verbatim>\<open>updateDataField\<close>.
\<close>

lemma onChange_steps:
  assumes "ngModel s = Some m"
  shows "returned (onChange s) \<and>
         data (stateOf (onChange s)) = data s \<and>
         ngModel (stateOf (onChange s)) = ngModel (validate m s) \<and>
         heap (stateOf (onChange s)) = heap (validate m s) \<and>
         get (ngModel (stateOf (onChange s))) valid =
           (templateValidators m (rawModelValue m) \<and> fst (validationRulesValidator (rawModelValue m) s)) \<and>
         (truthy (isDataRevert s) \<longrightarrow>
            updateCalls (trace (stateOf (onChange s))) = updateCalls (trace s) \<and>
            lastValidValue (stateOf (onChange s)) =
              (if get (ngModel (validate m s)) valid then data s else lastValidValue s)) \<and>
         (\<not> truthy (isDataRevert s) \<longrightarrow>
            trace (stateOf (onChange s)) =
              trace (validate m s) @ [UpdateDataCallback (data s) (updateDataField s)] \<and>
            updateCalls (trace (stateOf (onChange s))) =
              updateCalls (trace s) @ [UpdateDataCallback (data s) (updateDataField s)] \<and>
            lastValidValue (stateOf (onChange s)) = lastValidValue s)"
  using assms
  by (simp add: onChange_def Let_def validate_eq validator_updateCalls)

text \<open>
  When the model value is the current value, as it is when the model controller announces
  a change, the value that is validated is the value that becomes the last valid value.
\<close>

lemma onChange_current_value:
  assumes "ngModel s = Some m" and "rawModelValue m = data s" and "rulesAllocated s"
    and "truthy (isDataRevert s)"
  shows "lastValidValue (stateOf (onChange s)) =
           (if templateValidators m (data s) \<and>
               ((\<not> truthy (validationIsRequired s) \<and> data s = '''') \<or>
                list_all (ruleHolds s (data s)) (collection (validationRules s)))
            then data s else lastValidValue s)"
  using assms
  by (auto simp: onChange_def Let_def validate_eq validator_verdict)

text \<open>
  Claim C5 holds of the change events of the model controller, and fails in the code for
  the change that \<^verbatim>\<open>clearInputField\<close> makes: it empties \<^verbatim>\<open>ctrl.data\<close> and calls \<^verbatim>\<open>onChange\<close>, whose
  validation is that of the model value, which is still the value from before.

  \<^item> The required field of the example holds \<^verbatim>\<open>ABC\<close> and the user clears it. The validation
    is that of \<^verbatim>\<open>ABC\<close> and succeeds, and the empty value becomes the last valid value,
    though the field is required and the rule of upper-case letters fails on the empty
    value: the digest that follows finds the field invalid.

  \<^item> An optional field with a maximum length of 3 holds the invalid \<^verbatim>\<open>ABCD\<close> and the
    user clears it. The validation is that of \<^verbatim>\<open>ABCD\<close> and fails, and the last valid
    value stays \<^verbatim>\<open>ABC\<close>, though the empty value is valid: the digest that follows finds
    the field valid.
\<close>

theorem onChange_after_clear:
  "truthy (isDataRevert exampleLinked) \<and> truthy (validationIsRequired exampleLinked) \<and>
   data exampleLinked = ''ABC'' \<and> lastValidValue exampleLinked = ''ABC'' \<and>
   data (stateOf (clearInputField exampleLinked)) = '''' \<and>
   get (ngModel (stateOf (clearInputField exampleLinked))) (\<lambda>m. rawModelValue m = ''ABC'' \<and> valid m) \<and>
   lastValidValue (stateOf (clearInputField exampleLinked)) = '''' \<and>
   \<not> ruleHolds exampleLinked '''' 2 \<and>
   get (ngModel exampleLinked) (\<lambda>m. \<not> templateValidators m '''') \<and>
   data (run 13 [ClearInputField, Digest] exampleLinked) = '''' \<and>
   get (ngModel (run 13 [ClearInputField, Digest] exampleLinked))
     (\<lambda>m. rawModelValue m = '''' \<and> invalid m) \<and>
   truthy (isDataRevert exampleTooLong) \<and> \<not> truthy (validationIsRequired exampleTooLong) \<and>
   data exampleTooLong = ''ABCD'' \<and> lastValidValue exampleTooLong = ''ABC'' \<and>
   data (stateOf (clearInputField exampleTooLong)) = '''' \<and>
   get (ngModel (stateOf (clearInputField exampleTooLong)))
     (\<lambda>m. rawModelValue m = ''ABCD'' \<and> \<not> valid m) \<and>
   lastValidValue (stateOf (clearInputField exampleTooLong)) = ''ABC'' \<and>
   get (ngModel exampleTooLong) (\<lambda>m. templateValidators m '''') \<and>
   data (run 13 [ClearInputField, Digest] exampleTooLong) = '''' \<and>
   get (ngModel (run 13 [ClearInputField, Digest] exampleTooLong))
     (\<lambda>m. rawModelValue m = '''' \<and> valid m)"
  by code_simp

subsection \<open>The blur protocol\<close>

lemma commit_fields [simp]:
  "isDataRevert (commitViewValue m s) = isDataRevert s"
  "inputName (commitViewValue m s) = inputName s"
  "updateDataField (commitViewValue m s) = updateDataField s"
  "validationRules (commitViewValue m s) = validationRules s"
  "preventInputBlur (commitViewValue m s) = preventInputBlur s"
  "inputFocused (commitViewValue m s) = inputFocused s"
  "documentClick (commitViewValue m s) = documentClick s"
  "isValidationPopUpShown (commitViewValue m s) = isValidationPopUpShown s"
  "length (heap (commitViewValue m s)) = length (heap s)"
  by (simp_all add: commitViewValue_def Let_def onChange_def validate_eq runValidators_eq)

text \<open>With revert-on-blur, committing the view value does not invoke the update callback.\<close>

lemma commit_updateCalls:
  assumes "truthy (isDataRevert s)"
  shows "updateCalls (trace (commitViewValue m s)) = updateCalls (trace s)"
  using assms
  by (simp add: commitViewValue_def Let_def onChange_def validate_eq runValidators_eq
        validator_updateCalls)

text \<open>A committed value that is invalid has not become the last valid value.\<close>

lemma commit_invalid_keeps_snapshot:
  assumes "rulesAllocated s" and "truthy (isDataRevert s)"
    and "get (ngModel (commitViewValue m s)) invalid"
  shows "lastValidValue (commitViewValue m s) = lastValidValue s"
proof (cases "lastCommittedViewValue m \<noteq> viewValue m \<and> viewValue m \<noteq> rawModelValue m")
  case False
  then show ?thesis
    by (auto simp: commitViewValue_def Let_def runValidators_eq)
next
  case True
  define m1 where "m1 = m\<lparr>lastCommittedViewValue := viewValue m, dirty := True, rawModelValue := viewValue m\<rparr>"
  define s1 where "s1 = s\<lparr>ngModel := Some m1, data := viewValue m\<rparr>"
  define s2 where "s2 = stateOf (onChange s1)"
  have c: "commitViewValue m s = runValidators (defaultTo (ngModel s2) m1) (viewValue m) s2"
    using True by (simp add: commitViewValue_def Let_def s2_def s1_def m1_def)
  have a1: "rulesAllocated s1"
    using assms(1) by (simp add: rulesAllocated_def s1_def)
  have st: "fst (validationRulesValidator (viewValue m) s2) = fst (validationRulesValidator (viewValue m) s1)"
    by (rule verdict_stable [OF a1, where w = "viewValue m"])
       (simp_all add: s2_def s1_def m1_def onChange_def Let_def validate_eq)
  have tv: "templateValidators (defaultTo (ngModel s2) m1) = templateValidators m"
    by (simp add: s2_def s1_def m1_def onChange_def Let_def validate_eq)
  have inv: "\<not> (templateValidators m (viewValue m) \<and> fst (validationRulesValidator (viewValue m) s1))"
    using assms(3) by (simp add: c runValidators_eq tv st)
  have "lastValidValue s2 = lastValidValue s"
    using inv assms(2)
    by (auto simp: s2_def s1_def m1_def onChange_def Let_def validate_eq)
  then show ?thesis
    by (simp add: c runValidators_eq)
qed

text \<open>
  What \<^verbatim>\<open>onBlur\<close> does when the focus-retention flag \<^verbatim>\<open>preventInputBlur\<close> is not set and
  revert-on-blur is active: it commits the view value and then, if the field is invalid,
  \<^verbatim>\<open>ctrl.data\<close> becomes the variable \<^verbatim>\<open>lastValidValue\<close>, as it was before the blur, and the
  update callback is not invoked; if the field is not invalid, the update callback is
  invoked once, with the value and \<^verbatim>\<open>updateDataField\<close>. In both cases the blur callback is
  the last call, with the event, the value and \<^verbatim>\<open>inputName\<close>.
\<close>

lemma onBlur_reverts_to_snapshot:
  assumes "\<not> preventInputBlur s" and "ngModel s = Some m" and "truthy (isDataRevert s)"
    and "rulesAllocated s"
  shows "returned (onBlur e s) \<and>
         (get (ngModel (stateOf (onBlur e s))) invalid \<longrightarrow>
            data (stateOf (onBlur e s)) = lastValidValue s \<and>
            updateCalls (trace (stateOf (onBlur e s))) = updateCalls (trace s) \<and>
            trace (stateOf (onBlur e s)) =
              trace (commitViewValue m (s\<lparr>inputFocused := False\<rparr>)) @
              [ItemBlurCallback e (lastValidValue s) (inputName s)]) \<and>
         (\<not> get (ngModel (stateOf (onBlur e s))) invalid \<longrightarrow>
            data (stateOf (onBlur e s)) = data (commitViewValue m (s\<lparr>inputFocused := False\<rparr>)) \<and>
            updateCalls (trace (stateOf (onBlur e s))) =
              updateCalls (trace s) @
              [UpdateDataCallback (data (stateOf (onBlur e s))) (updateDataField s)] \<and>
            trace (stateOf (onBlur e s)) =
              trace (commitViewValue m (s\<lparr>inputFocused := False\<rparr>)) @
              [UpdateDataCallback (data (stateOf (onBlur e s))) (updateDataField s),
               ItemBlurCallback e (data (stateOf (onBlur e s))) (inputName s)])"
proof -
  define s1 where "s1 = s\<lparr>inputFocused := False\<rparr>"
  define s2 where "s2 = commitViewValue m s1"
  have b: "onBlur e s =
             Returns ((setOrRevertInputValue s2)
                        \<lparr>trace := trace (setOrRevertInputValue s2) @
                           [ItemBlurCallback e (data (setOrRevertInputValue s2)) (inputName s)]\<rparr>)"
    using assms(1-3)
    by (simp add: onBlur_def Let_def s1_def s2_def) (simp add: setOrRevertInputValue_def)
  have a1: "rulesAllocated s1" "truthy (isDataRevert s1)"
    using assms by (simp_all add: s1_def rulesAllocated_def)
  have u: "updateCalls (trace s2) = updateCalls (trace s)"
    using commit_updateCalls [OF a1(2), of m] by (simp add: s2_def s1_def)
  have l: "get (ngModel s2) invalid \<Longrightarrow> lastValidValue s2 = lastValidValue s"
    using commit_invalid_keeps_snapshot [OF a1, of m] by (simp add: s2_def s1_def)
  have f: "updateDataField s2 = updateDataField s"
    by (simp add: s2_def s1_def)
  show ?thesis
    unfolding b s1_def [symmetric] s2_def [symmetric]
    using u l f by (simp add: setOrRevertInputValue_def)
qed

text \<open>
  Claim C4 fails in the code in what the value is reverted to: the variable
  \<^verbatim>\<open>lastValidValue\<close> is not always the last value that was valid. The rest of the claim
  holds: the update callback is not invoked, and the blur callback is, with the event,
  the value and the name of the field.

  \<^item> \<^verbatim>\<open>onChanges\<close> makes the value that the host binds the last valid value without
    validating it. The required field of the example holds the valid \<^verbatim>\<open>ABC\<close>, the host
    changes the value to \<^verbatim>\<open>abc\<close>, which fails the rule of upper-case letters, the user
    types \<^verbatim>\<open>abcd\<close> and leaves the field: the value after the blur is \<^verbatim>\<open>abc\<close>, which was
    never valid, and the digest that follows finds the field invalid.

  \<^item> \<^verbatim>\<open>clearInputField\<close> makes the empty value the last valid value after a validation of
    the value from before. The required field holds the valid \<^verbatim>\<open>ABC\<close>, the user clears
    it, types \<^verbatim>\<open>abc\<close> and leaves the field: the value after the blur is empty, in a
    required field.
\<close>

theorem onBlur_revert_not_last_valid:
  "data exampleLinked = ''ABC'' \<and> get (ngModel exampleLinked) valid \<and>
   data examplePristine = ''abc'' \<and> get (ngModel examplePristine) invalid \<and>
   \<not> ruleHolds examplePristine ''abc'' 2 \<and>
   truthy (isDataRevert exampleHostInvalid) \<and> \<not> preventInputBlur exampleHostInvalid \<and>
   get (ngModel exampleHostInvalid) (\<lambda>m. viewValue m = ''abcd'') \<and>
   returned (onBlur blurEvent exampleHostInvalid) \<and>
   get (ngModel (stateOf (onBlur blurEvent exampleHostInvalid))) invalid \<and>
   data (stateOf (onBlur blurEvent exampleHostInvalid)) = ''abc'' \<and>
   updateCalls (trace (stateOf (onBlur blurEvent exampleHostInvalid))) = [] \<and>
   last (trace (stateOf (onBlur blurEvent exampleHostInvalid))) =
     ItemBlurCallback blurEvent ''abc'' (Some ''code'') \<and>
   data (run 13 [OnBlur blurEvent, Digest] exampleHostInvalid) = ''abc'' \<and>
   get (ngModel (run 13 [OnBlur blurEvent, Digest] exampleHostInvalid))
     (\<lambda>m. rawModelValue m = ''abc'' \<and> invalid m) \<and>
   truthy (isDataRevert exampleClearedTyped) \<and> \<not> preventInputBlur exampleClearedTyped \<and>
   truthy (validationIsRequired exampleClearedTyped) \<and>
   get (ngModel exampleClearedTyped) (\<lambda>m. viewValue m = ''abc'') \<and>
   returned (onBlur blurEvent exampleClearedTyped) \<and>
   get (ngModel (stateOf (onBlur blurEvent exampleClearedTyped))) invalid \<and>
   data (stateOf (onBlur blurEvent exampleClearedTyped)) = '''' \<and>
   updateCalls (trace (stateOf (onBlur blurEvent exampleClearedTyped))) = [] \<and>
   last (trace (stateOf (onBlur blurEvent exampleClearedTyped))) =
     ItemBlurCallback blurEvent '''' (Some ''code'') \<and>
   data (run 13 [OnBlur blurEvent, Digest] exampleClearedTyped) = '''' \<and>
   get (ngModel (run 13 [OnBlur blurEvent, Digest] exampleClearedTyped))
     (\<lambda>m. rawModelValue m = '''' \<and> invalid m)"
  by code_simp

subsection \<open>The remaining-character counter\<close>

lemma decimal_digits:
  "list_all (\<lambda>d. digitValue 10 (''0123456789'' ! d) = Some d \<and> \<not> isWhiteSpace (''0123456789'' ! d) \<and>
                 ''0123456789'' ! d \<noteq> CHR ''-'' \<and> ''0123456789'' ! d \<noteq> CHR ''+'' \<and>
                 ''0123456789'' ! d \<noteq> CHR ''x'' \<and> ''0123456789'' ! d \<noteq> CHR ''X'')
     [0 ..< 10]"
  by code_simp

lemma digitValue_decimal: "d < 10 \<Longrightarrow> digitValue 10 (''0123456789'' ! d) = Some d"
  using decimal_digits by (simp add: list_all_iff)

lemma decimal_not_space: "d < 10 \<Longrightarrow> \<not> isWhiteSpace (''0123456789'' ! d)"
  using decimal_digits by (simp add: list_all_iff)

lemma decimal_not_sign:
  "d < 10 \<Longrightarrow> ''0123456789'' ! d \<noteq> CHR ''-'' \<and> ''0123456789'' ! d \<noteq> CHR ''+'' \<and>
     ''0123456789'' ! d \<noteq> CHR ''x'' \<and> ''0123456789'' ! d \<noteq> CHR ''X''"
  using decimal_digits by (simp add: list_all_iff)

lemma digitsOf_decimal: "digitsOf n \<noteq> [] \<and> list_all decimal (digitsOf n)"
proof (induction n rule: digitsOf.induct)
  case (1 n)
  show ?case
  proof (cases "n < 10")
    case True
    then show ?thesis
      by (subst digitsOf.simps, subst (2) digitsOf.simps) (auto simp: decimal_def)
  next
    case False
    have "n mod 10 < 10" by simp
    then have "decimal (''0123456789'' ! (n mod 10))" unfolding decimal_def by blast
    then show ?thesis
      using False 1 by (subst digitsOf.simps, subst (2) digitsOf.simps) simp
  qed
qed

lemma mathInt_snoc: "mathInt r (z @ [c]) = mathInt r z * r + the (digitValue r c)"
  by (simp add: mathInt_def)

lemma mathInt_digitsOf: "mathInt 10 (digitsOf n) = n"
proof (induction n rule: digitsOf.induct)
  case (1 n)
  show ?case
  proof (cases "n < 10")
    case True
    then show ?thesis
      by (subst digitsOf.simps) (simp add: mathInt_def digitValue_decimal)
  next
    case False
    have "n mod 10 < 10" by simp
    then have d: "digitValue 10 (''0123456789'' ! (n mod 10)) = Some (n mod 10)"
      by (rule digitValue_decimal)
    show ?thesis
      using False 1 by (subst digitsOf.simps) (simp add: mathInt_snoc d)
  qed
qed

lemma decimal_facts:
  assumes "decimal c"
  shows "digitValue 10 c \<noteq> None" "\<not> isWhiteSpace c" "c \<noteq> CHR ''-''" "c \<noteq> CHR ''+''"
    "c \<noteq> CHR ''x''" "c \<noteq> CHR ''X''"
  using assms digitValue_decimal decimal_not_space decimal_not_sign
  by (auto simp: decimal_def)

lemma takeWhile_decimal:
  "list_all decimal xs \<Longrightarrow> takeWhile (\<lambda>c. digitValue 10 c \<noteq> None) xs = xs"
  by (induction xs) (simp_all add: decimal_facts)

lemma parseInt_decimal:
  assumes "xs \<noteq> []" and "list_all decimal xs"
  shows "parseInt (Some xs) = Num (int (mathInt 10 xs)) \<and>
         parseInt (Some (CHR ''-'' # xs)) = Num (- int (mathInt 10 xs))"
proof -
  obtain c cs where xs: "xs = c # cs" using assms(1) by (cases xs) auto
  have c: "decimal c" and cs: "list_all decimal cs" using assms(2) by (simp_all add: xs)
  have nohex: "take 2 xs \<noteq> ''0x''" "take 2 xs \<noteq> ''0X''"
    using cs by (cases cs; auto simp: xs dest: decimal_facts)+
  have tw: "takeWhile (\<lambda>c. digitValue 10 c \<noteq> None) xs = xs"
    using assms(2) by (rule takeWhile_decimal)
  have sp: "dropWhile isWhiteSpace xs = xs"
    using c by (simp add: xs decimal_facts)
  have sg: "take 1 xs \<noteq> ''-''" "take 1 xs \<noteq> ''+''"
    using c by (auto simp: xs dest: decimal_facts)
  have m: "\<not> isWhiteSpace CHR ''-''" by (simp add: isWhiteSpace_def)
  show ?thesis
    using assms(1) nohex sg m by (simp add: parseInt_def Let_def tw sp del: not_None_eq)
qed

text \<open>The decimal text that \<^verbatim>\<open>toString\<close> writes is the one that \<^verbatim>\<open>parseInt\<close> reads.\<close>

lemma parseInt_toString: "parseInt (Some (toString (Num i))) = Num i"
  using parseInt_decimal [of "digitsOf (nat i)"] parseInt_decimal [of "digitsOf (nat (- i))"]
    digitsOf_decimal [of "nat i"] digitsOf_decimal [of "nat (- i)"]
  by (simp add: mathInt_digitsOf)

text \<open>
  Claim C6, amended. When \<^verbatim>\<open>parseInt\<close> of the configured maximum length is a number \<open>n\<close>
  (within the range of exact integers), the count is the decimal text of \<open>n\<close> minus the
  length of the value if \<open>n\<close> is positive, and \<^verbatim>\<open>null\<close> otherwise. The count is not
  clamped: for a value longer than \<open>n\<close> it starts with a minus sign.
\<close>

theorem remaining_count_numeric:
  assumes "parseInt (validationMaxLength s) = Num n" and "\<bar>n\<bar> \<le> MAX_SAFE_INTEGER"
  shows "getRemainingCharactersCount s =
           (if 0 < n then Some (toString (Num (n - int (length (data s))))) else None) \<and>
         (0 < n \<and> n < int (length (data s)) \<longrightarrow>
            (\<exists>ds. getRemainingCharactersCount s = Some (CHR ''-'' # ds)))"
  using assms by (simp add: getRemainingCharactersCount_def Let_def)

theorem remaining_count_numeric_witness:
  "parseInt (validationMaxLength (exampleCounter ''Hello!'')) = Num 5 \<and> \<bar>5\<bar> \<le> MAX_SAFE_INTEGER \<and>
   data (exampleCounter ''Hello!'') = ''Hello!'' \<and>
   getRemainingCharactersCount (exampleCounter ''Hello!'') = Some ''-1'' \<and>
   getRemainingCharactersCount (exampleCounter ''Hello'') = Some ''0''"
proof -
  have p: "parseInt (validationMaxLength (exampleCounter ''Hello!'')) = Num 5"
    "parseInt (validationMaxLength (exampleCounter ''Hello'')) = Num 5"
    by code_simp+
  have d: "data (exampleCounter ''Hello!'') = ''Hello!''" "data (exampleCounter ''Hello'') = ''Hello''"
    by code_simp+
  have m: "\<bar>5\<bar> \<le> MAX_SAFE_INTEGER" by (simp add: MAX_SAFE_INTEGER_def)
  show ?thesis
    using remaining_count_numeric [OF p(1) m] remaining_count_numeric [OF p(2) m] p m
    by (simp add: d digitsOf.simps)
qed

text \<open>
  Claim C6 as stated fails. Without a maximum length, and with one that is no number,
  \<^verbatim>\<open>parseInt\<close> gives \<^verbatim>\<open>NaN\<close>, the comparison \<^verbatim>\<open>NaN <= 0\<close> is false, and the count is the text
  \<^verbatim>\<open>NaN\<close>, not \<^verbatim>\<open>null\<close>.
\<close>

theorem remaining_count_counterexample:
  "validationMaxLength exampleLinked = None \<and>
   getRemainingCharactersCount exampleLinked = Some ''NaN'' \<and>
   validationMaxLength exampleNoNumber = Some ''abc'' \<and>
   getRemainingCharactersCount exampleNoNumber = Some ''NaN''"
  by code_simp
subsection \<open>The pop-over and the document listener\<close>

lemma popUp_fields_onChange [simp]:
  "isValidationPopUpShown (stateOf (onChange s)) = isValidationPopUpShown s"
  "documentClick (stateOf (onChange s)) = documentClick s"
  by (simp_all add: onChange_def Let_def validate_eq split: option.splits)

lemma popUp_fields_onBlur [simp]:
  "isValidationPopUpShown (stateOf (onBlur e s)) = isValidationPopUpShown s"
  "documentClick (stateOf (onBlur e s)) = documentClick s"
  by (simp_all add: onBlur_def Let_def setOrRevertInputValue_def split: option.splits)

lemma popUp_fields_clearInputField [simp]:
  "isValidationPopUpShown (stateOf (clearInputField s)) = isValidationPopUpShown s"
  "documentClick (stateOf (clearInputField s)) = documentClick s"
  by (simp_all add: clearInputField_def Let_def split: option.splits)

lemma popUp_fields_onChanges [simp]:
  "isValidationPopUpShown (stateOf (onChanges c s)) = isValidationPopUpShown s"
  "documentClick (stateOf (onChanges c s)) = documentClick s"
  by (simp_all add: onChanges_def Let_def validate_eq split_beta split: option.splits)

lemma popUp_fields_timeout [simp]:
  "isValidationPopUpShown (stateOf (timeout i g s)) = isValidationPopUpShown s"
  "documentClick (stateOf (timeout i g s)) = documentClick s"
  by (cases "timeouts s ! i"; simp add: timeout_def)+

lemma popUp_fields_onInit [simp]:
  "isValidationPopUpShown (onInit s) = isValidationPopUpShown s"
  "documentClick (onInit s) = documentClick s"
  by (cases "fieldType s"; cases "bordersMode s"; simp add: onInit_def Let_def)+

lemma popUp_fields_postLink [simp]:
  "isValidationPopUpShown (postLink m s) = isValidationPopUpShown s"
  "documentClick (postLink m s) = documentClick s"
  by (simp_all add: postLink_def Let_def validate_eq)

lemma popUp_fields_ngModelWatch [simp]:
  "isValidationPopUpShown (ngModelWatch s) = isValidationPopUpShown s"
  "documentClick (ngModelWatch s) = documentClick s"
  by (simp_all add: ngModelWatch_def runValidators_eq split: option.splits)

lemma step_listenerDiscipline:
  assumes "listenerDiscipline s"
  shows "listenerDiscipline (step ENTER a s)"
proof (cases a)
  case ToggleValidationPopUp
  then show ?thesis
    using assms
    by (auto simp: listenerDiscipline_def toggleValidationPopUp_def Let_def split: if_splits)
next
  case (DocumentClick e)
  then show ?thesis
    using assms
    by (auto simp: listenerDiscipline_def handleDocumentClick_def Let_def split: if_splits)
next
  case OnDestroy
  then show ?thesis
    using assms by (simp add: listenerDiscipline_def onDestroy_def)
qed (use assms in \<open>auto simp: listenerDiscipline_def bind_def bindValidationRules_def onFocus_def
       onKeyDown_def Let_def
       split: option.splits if_splits\<close>)

lemma run_listenerDiscipline:
  assumes "listenerDiscipline s"
  shows "listenerDiscipline (run ENTER as s)"
  using assms unfolding run_def
  by (induction as arbitrary: s) (simp_all add: step_listenerDiscipline)

text \<open>The listener, when it runs twice, does what it does when it runs once.\<close>

lemma handleDocumentClick_idempotent:
  "handleDocumentClick e (handleDocumentClick e s) = handleDocumentClick e s"
  by (simp add: handleDocumentClick_def Let_def)

text \<open>
  Claim C7. With rules configured, opening the closed pop-over registers the document
  listener and closing it again leaves no registration. In every state that a component
  reaches, the listener is registered at most once and only while the pop-over is shown.
  Closing the pop-over and destroying the component remove the listener, and without
  rules toggling changes nothing.
\<close>

theorem popUp_listener_discipline:
  "(\<not> isEmpty (validationRules s) \<and> \<not> isValidationPopUpShown s \<longrightarrow>
      isValidationPopUpShown (toggleValidationPopUp s) \<and>
      documentClick (toggleValidationPopUp s) = Suc (documentClick s) \<and>
      \<not> isValidationPopUpShown (toggleValidationPopUp (toggleValidationPopUp s)) \<and>
      documentClick (toggleValidationPopUp (toggleValidationPopUp s)) = 0) \<and>
   (\<forall>as. documentClick (run ENTER as controller) \<le> 1 \<and>
         (0 < documentClick (run ENTER as controller) \<longrightarrow>
            isValidationPopUpShown (run ENTER as controller))) \<and>
   (\<not> isEmpty (validationRules s) \<and> isValidationPopUpShown s \<longrightarrow>
      \<not> isValidationPopUpShown (toggleValidationPopUp s) \<and> documentClick (toggleValidationPopUp s) = 0) \<and>
   documentClick (onDestroy s) = 0 \<and>
   (isEmpty (validationRules s) \<longrightarrow> toggleValidationPopUp s = s)"
proof -
  have "listenerDiscipline controller"
    by (simp add: listenerDiscipline_def controller_def)
  then have d: "listenerDiscipline (run ENTER as controller)" for as
    by (rule run_listenerDiscipline)
  have r: "documentClick (run ENTER as controller) \<le> 1 \<and>
                (0 < documentClick (run ENTER as controller) \<longrightarrow>
                   isValidationPopUpShown (run ENTER as controller))" for as
    using d [of as]
    by (cases "isValidationPopUpShown (run ENTER as controller)") (simp_all add: listenerDiscipline_def)
  show ?thesis
    using r by (simp add: toggleValidationPopUp_def onDestroy_def Let_def)
qed

theorem popUp_listener_discipline_witness:
  "\<not> isEmpty (validationRules exampleLinked) \<and> \<not> isValidationPopUpShown exampleLinked \<and>
   documentClick (toggleValidationPopUp exampleLinked) = 1 \<and>
   documentClick (toggleValidationPopUp (toggleValidationPopUp exampleLinked)) = 0 \<and>
   0 < documentClick (run 13 (exampleStart @ [ToggleValidationPopUp]) controller) \<and>
   isValidationPopUpShown (run 13 (exampleStart @ [ToggleValidationPopUp]) controller) \<and>
   isEmpty (validationRules controller) \<and> toggleValidationPopUp controller = controller"
proof -
  have h: "\<not> isEmpty (validationRules exampleLinked)" "\<not> isValidationPopUpShown exampleLinked"
    "documentClick exampleLinked = 0"
    "0 < documentClick (run 13 (exampleStart @ [ToggleValidationPopUp]) controller)"
    "isEmpty (validationRules controller)"
    by code_simp+
  show ?thesis
    using popUp_listener_discipline [of exampleLinked 13]
          popUp_listener_discipline [of controller 13] h
    by auto
qed
subsection \<open>A change of the bound value\<close>

text \<open>
  Claim C8, amended. When the bound input value changes, the local value becomes the new
  value, or the empty string if the new value is \<^verbatim>\<open>undefined\<close> or \<^verbatim>\<open>null\<close>, and the last
  valid value becomes the same.
\<close>

theorem onChanges_input_value:
  assumes "changes_inputValue c = Some ch"
  shows "data (stateOf (onChanges c s)) = defaultTo (currentValue ch) '''' \<and>
         lastValidValue (stateOf (onChanges c s)) = data (stateOf (onChanges c s)) \<and>
         (\<forall>v. currentValue ch = Some v \<longrightarrow> data (stateOf (onChanges c s)) = v)"
  using assms
  by (auto simp: onChanges_def Let_def validate_eq split_beta split: option.splits)

theorem onChanges_input_value_witness:
  "changes_inputValue exampleLowerCase = Some \<lparr>currentValue = Some ''abc'', isFirstChange = False\<rparr> \<and>
   data exampleLinked = ''ABC'' \<and>
   data (stateOf (onChanges exampleLowerCase exampleLinked)) = ''abc'' \<and>
   lastValidValue (stateOf (onChanges exampleLowerCase exampleLinked)) = ''abc''"
proof -
  have h: "changes_inputValue exampleLowerCase = Some \<lparr>currentValue = Some ''abc'', isFirstChange = False\<rparr>"
    by (simp add: exampleLowerCase_def)
  have d: "data exampleLinked = ''ABC''" by code_simp
  show ?thesis
    using onChanges_input_value [OF h, of exampleLinked] h d by simp
qed

text \<open>
  Claim C8 as stated fails. When the host changes the bound value to \<^verbatim>\<open>undefined\<close>, the
  local value and the last valid value become the empty string, which is not the new
  external value.
\<close>

theorem onChanges_input_value_counterexample:
  "changes_inputValue exampleUnset = Some \<lparr>currentValue = None, isFirstChange = False\<rparr> \<and>
   data (stateOf (onChanges exampleUnset exampleLinked)) = '''' \<and>
   lastValidValue (stateOf (onChanges exampleUnset exampleLinked)) = '''' \<and>
   Some (data (stateOf (onChanges exampleUnset exampleLinked))) \<noteq>
     currentValue (the (changes_inputValue exampleUnset))"
  by (simp add: exampleUnset_def onChanges_def)
subsection \<open>Initialization\<close>

lemma onInit_selectedFieldType:
  "selectedFieldType (onInit s) =
     (case fieldType s of
        None \<Rightarrow> selectedFieldType s
      | Some t \<Rightarrow> if t \<in> set FIELD_TYPES then t else selectedFieldType s)"
  by (cases "fieldType s"; cases "bordersMode s") (simp_all add: onInit_def Let_def)

lemma onInit_bordersMode:
  "bordersMode (onInit s) =
     (case bordersMode s of
        None \<Rightarrow> Some defaultBorderMode
      | Some b \<Rightarrow> if b \<in> set BORDER_MODES then Some b else Some defaultBorderMode)"
  by (cases "fieldType s"; cases "bordersMode s") (simp_all add: onInit_def Let_def)

lemma onInit_bordersModeClass:
  "bordersModeClass (onInit s) = BORDERS_CLASS_BASE @ the (bordersMode (onInit s))"
  by (cases "fieldType s"; cases "bordersMode s") (simp_all add: onInit_def Let_def)

text \<open>A recognized field type and borders mode are taken as they are.\<close>

lemma onInit_recognized:
  "selectedFieldType (onInit (controller\<lparr>fieldType := Some ''textarea'', bordersMode := Some ''hover''\<rparr>)) =
     ''textarea'' \<and>
   bordersModeClass (onInit (controller\<lparr>fieldType := Some ''textarea'', bordersMode := Some ''hover''\<rparr>)) =
     ''borders-hover''"
  by (simp add: onInit_selectedFieldType onInit_bordersMode onInit_bordersModeClass
        defaultBorderMode_def BORDERS_CLASS_BASE_def FIELD_TYPES_def BORDER_MODES_def controller_def)

text \<open>
  Claim C9. \<^verbatim>\<open>onInit\<close> has no failing path: it is a total function from states to states.
  On a controller as the constructor leaves it (\<^verbatim>\<open>selectedFieldType\<close> is \<^verbatim>\<open>input\<close>), a
  \<^verbatim>\<open>fieldType\<close> that is none of the four field types leaves the selected field type
  \<^verbatim>\<open>input\<close>, and a \<^verbatim>\<open>bordersMode\<close> that is none of the three border modes is replaced by
  \<^verbatim>\<open>always\<close>, which also gives the class of the borders.
\<close>

theorem onInit_unrecognized_falls_back:
  assumes "selectedFieldType s = ''input''"
  shows "(\<forall>t. fieldType s = Some t \<longrightarrow> t \<notin> set FIELD_TYPES \<longrightarrow> selectedFieldType (onInit s) = ''input'') \<and>
         (\<forall>b. bordersMode s = Some b \<longrightarrow> b \<notin> set BORDER_MODES \<longrightarrow>
               bordersMode (onInit s) = Some ''always'' \<and> bordersModeClass (onInit s) = ''borders-always'')"
  using assms
  by (simp add: onInit_selectedFieldType onInit_bordersMode onInit_bordersModeClass
        defaultBorderMode_def BORDERS_CLASS_BASE_def)

theorem onInit_unrecognized_falls_back_witness:
  "selectedFieldType (bind (controller\<lparr>fieldType := Some ''number'', bordersMode := Some ''never''\<rparr>) controller) = ''input'' \<and>
   ''number'' \<notin> set FIELD_TYPES \<and> ''never'' \<notin> set BORDER_MODES \<and>
   selectedFieldType (onInit (bind (controller\<lparr>fieldType := Some ''number'', bordersMode := Some ''never''\<rparr>) controller)) = ''input'' \<and>
   bordersMode (onInit (bind (controller\<lparr>fieldType := Some ''number'', bordersMode := Some ''never''\<rparr>) controller)) = Some ''always'' \<and>
   bordersModeClass (onInit (bind (controller\<lparr>fieldType := Some ''number'', bordersMode := Some ''never''\<rparr>) controller)) = ''borders-always''"
  using onInit_unrecognized_falls_back
          [of "bind (controller\<lparr>fieldType := Some ''number'', bordersMode := Some ''never''\<rparr>) controller"]
  by (simp add: bind_def controller_def FIELD_TYPES_def BORDER_MODES_def)
subsection \<open>The copy and the objects of the caller\<close>

text \<open>
  Claim C10, amended. When \<^verbatim>\<open>$onChanges\<close> is called for a change of the bound rule list, the
  controller's rule list becomes a list of as many new objects, each with the name, label
  and pattern of the rule it copies, and the empty list when the bound list is
  \<^verbatim>\<open>undefined\<close> or \<^verbatim>\<open>null\<close>. No object that existed before the call, so no object of the
  caller, is written by the call or by any later step of the component, until the
  framework assigns the binding again: the \<^verbatim>\<open>isValid\<close> flags go to the copies.
\<close>

theorem onChanges_deep_copy:
  assumes "changes_validationRules c = Some ch"
    and "\<forall>r \<in> set (defaultTo (currentValue ch) []). r < length (heap s)"
  shows "validationRules (stateOf (onChanges c s)) \<noteq> None \<and>
         length (collection (validationRules (stateOf (onChanges c s)))) =
           length (defaultTo (currentValue ch) []) \<and>
         (\<forall>i < length (defaultTo (currentValue ch) []).
            length (heap s) \<le> collection (validationRules (stateOf (onChanges c s))) ! i \<and>
            collection (validationRules (stateOf (onChanges c s))) ! i < length (heap (stateOf (onChanges c s))) \<and>
            name (heap (stateOf (onChanges c s)) ! (collection (validationRules (stateOf (onChanges c s))) ! i)) =
              name (heap s ! (defaultTo (currentValue ch) [] ! i)) \<and>
            label (heap (stateOf (onChanges c s)) ! (collection (validationRules (stateOf (onChanges c s))) ! i)) =
              label (heap s ! (defaultTo (currentValue ch) [] ! i)) \<and>
            pattern (heap (stateOf (onChanges c s)) ! (collection (validationRules (stateOf (onChanges c s))) ! i)) =
              pattern (heap s ! (defaultTo (currentValue ch) [] ! i))) \<and>
         (\<forall>as. \<not> list_ex assignsRules as \<longrightarrow>
            (\<forall>r < length (heap s). heap (run ENTER as (stateOf (onChanges c s))) ! r = heap s ! r)) \<and>
         (currentValue ch = None \<longrightarrow> validationRules (stateOf (onChanges c s)) = Some [])"
proof -
  let ?rs = "defaultTo (currentValue ch) []"
  let ?s' = "stateOf (onChanges c s)"
  note n = onChanges_new_rules [OF assms(1), of s]
  note cs = copy_structure [of "heap s" ?rs]
  note cc = copy_content [OF assms(2)]
  have rules: "collection (validationRules ?s') = snd (copy (heap s) ?rs)"
    using n by simp
  have 1: "validationRules ?s' \<noteq> None" using n by simp
  have 2: "length (collection (validationRules ?s')) = length ?rs"
    using cs by (simp add: rules)
  have 3: "length (heap s) \<le> collection (validationRules ?s') ! i \<and>
           collection (validationRules ?s') ! i < length (heap ?s') \<and>
           name (heap ?s' ! (collection (validationRules ?s') ! i)) = name (heap s ! (?rs ! i)) \<and>
           label (heap ?s' ! (collection (validationRules ?s') ! i)) = label (heap s ! (?rs ! i)) \<and>
           pattern (heap ?s' ! (collection (validationRules ?s') ! i)) = pattern (heap s ! (?rs ! i))"
    if i: "i < length ?rs" for i
  proof -
    have m: "snd (copy (heap s) ?rs) ! i \<in> set (snd (copy (heap s) ?rs))"
      using i cs by simp
    have "fst (copy (heap s) ?rs) ! (snd (copy (heap s) ?rs) ! i) = heap s ! (?rs ! i)"
      using cc i by blast
    then show ?thesis
      using n cs m by (simp add: rules)
  qed
  have sep: "separate (length (heap s)) ?s'"
    using n cs onChanges_keeps_objects [of s c] by (simp add: separate_def list_all_iff)
  have 4: "heap (run ENTER as ?s') ! r = heap s ! r"
    if "\<not> list_ex assignsRules as" and "r < length (heap s)" for as r
    using run_separate [OF sep that(1), of ENTER] onChanges_keeps_objects [of s c] that(2) by simp
  have 5: "currentValue ch = None \<longrightarrow> validationRules ?s' = Some []"
    using n by (simp add: copy_def)
  show ?thesis
    using 1 2 3 4 5 by blast
qed

theorem onChanges_deep_copy_witness:
  "changes_validationRules exampleChanges = Some \<lparr>currentValue = Some [0, 1], isFirstChange = True\<rparr> \<and>
   length (heap exampleBound) = 2 \<and> validationRules exampleBound = Some [0, 1] \<and>
   validationRules (stateOf (onChanges exampleChanges exampleBound)) = Some [2, 3] \<and>
   map isValid (heap exampleBound) = [None, Some False] \<and>
   \<not> list_ex assignsRules [OnInit, PostLink exampleModel, Input ''ABCD'', OnBlur blurEvent] \<and>
   isValid (heap (run 13 [OnInit, PostLink exampleModel, Input ''ABCD'', OnBlur blurEvent]
                  (stateOf (onChanges exampleChanges exampleBound))) ! 0) = None \<and>
   isValid (heap (run 13 [OnInit, PostLink exampleModel, Input ''ABCD'', OnBlur blurEvent]
                  (stateOf (onChanges exampleChanges exampleBound))) ! 1) = Some False \<and>
   map isValid (heap (run 13 [OnInit, PostLink exampleModel, Input ''ABCD'', OnBlur blurEvent]
                  (stateOf (onChanges exampleChanges exampleBound)))) =
     [None, Some False, Some True, Some False]"
proof -
  have h1: "changes_validationRules exampleChanges = Some \<lparr>currentValue = Some [0, 1], isFirstChange = True\<rparr>"
    by (simp add: exampleChanges_def)
  have l: "length (heap exampleBound) = 2" by code_simp
  have b: "validationRules exampleBound = Some [0, 1]" by code_simp
  have h2: "\<forall>r \<in> set (defaultTo (currentValue \<lparr>currentValue = Some [0, 1], isFirstChange = True\<rparr>) []).
              r < length (heap exampleBound)"
    by (simp add: l)
  have v: "validationRules (stateOf (onChanges exampleChanges exampleBound)) = Some [2, 3]"
    by code_simp
  have f: "map isValid (heap exampleBound) = [None, Some False]" by code_simp
  have g: "map isValid (heap (run 13 [OnInit, PostLink exampleModel, Input ''ABCD'', OnBlur blurEvent]
                  (stateOf (onChanges exampleChanges exampleBound)))) =
             [None, Some False, Some True, Some False]"
    by code_simp
  have f0: "isValid (heap exampleBound ! 0) = None" "isValid (heap exampleBound ! Suc 0) = Some False"
    by code_simp+
  have n: "\<not> list_ex assignsRules [OnInit, PostLink exampleModel, Input ''ABCD'', OnBlur blurEvent]"
    by simp
  from onChanges_deep_copy [OF h1 h2, of 13]
  have k: "\<forall>as. \<not> list_ex assignsRules as \<longrightarrow>
             (\<forall>r < length (heap exampleBound).
                heap (run 13 as (stateOf (onChanges exampleChanges exampleBound))) ! r = heap exampleBound ! r)"
    by blast
  have k0: "heap (run 13 [OnInit, PostLink exampleModel, Input ''ABCD'', OnBlur blurEvent]
                  (stateOf (onChanges exampleChanges exampleBound))) ! 0 = heap exampleBound ! 0"
    and k1: "heap (run 13 [OnInit, PostLink exampleModel, Input ''ABCD'', OnBlur blurEvent]
                  (stateOf (onChanges exampleChanges exampleBound))) ! Suc 0 = heap exampleBound ! Suc 0"
    using k n by (simp_all add: l)
  show ?thesis
    using h1 l b v f g n by (simp add: k0 k1 f0)
qed

text \<open>
  Claim C10 as stated fails. The rule list is a binding of the component: when the bound
  list changes, the framework first assigns the list of the caller to
  \<^verbatim>\<open>ctrl.validationRules\<close>, and \<^verbatim>\<open>$onChanges\<close>, which replaces it by the copy, is called after the
  digest. A validation in between writes to the objects of the caller. Here the value
  has been reverted on a blur, the host binds the two rules in the other order, and the
  watch of the model controller validates the reverted value in the same digest: the
  \<^verbatim>\<open>isValid\<close> flags of the two objects of the caller change, and the copy that
  \<^verbatim>\<open>$onChanges\<close> takes afterwards does not undo that.
\<close>

theorem onChanges_deep_copy_counterexample:
  "validationRules exampleReverted = Some [2, 3] \<and>
   map isValid (heap exampleReverted) = [None, Some False, Some False, Some False] \<and>
   data exampleReverted = ''ABC'' \<and> get (ngModel exampleReverted) (\<lambda>m. rawModelValue m = ''abcd'') \<and>
   validationRules (run 13 [BindValidationRules (Some [1, 0])] exampleReverted) = Some [1, 0] \<and>
   map isValid (heap (run 13 [BindValidationRules (Some [1, 0]), Digest] exampleReverted)) =
     [Some True, Some True, Some False, Some False] \<and>
   validationRules
     (run 13 [BindValidationRules (Some [1, 0]), Digest, OnChanges exampleReordered] exampleReverted) =
     Some [4, 5] \<and>
   map isValid
     (heap (run 13 [BindValidationRules (Some [1, 0]), Digest, OnChanges exampleReordered]
              exampleReverted)) =
     [Some True, Some True, Some False, Some False, Some True, Some True]"
  by code_simp


end
